theory Spec2Isabelle
  imports Complex_Main "HOL-Library.Char_ord" "HOL-Library.List_Lexorder"
    "HOL-Library.Product_Lexorder"
begin

section \<open>Python values, exceptions and data frames\<close>

text \<open>
  The exceptions the modelled code can raise. A function that can let an exception escape
  returns \<open>exn + 'a\<close>, with \<open>Inl\<close> for the escaping exception.
\<close>

datatype exn = TypeError | AttributeError | KeyError | ValueError | IndexError
  | NameError | DatabaseError | ConnectionError

text \<open>
  A cell of a table: a number, a string or the missing value (\<open>None\<close>/NaN). A number
  is carried by its value, whether it is an \<open>int\<close> or a \<open>float\<close>: Python and pandas
  compare the two by value (\<open>1 == 1.0\<close>), in dictionary lookups, \<open>replace\<close>, \<open>isin\<close>,
  merge keys and group keys alike. A float is taken at the decimal value it was written
  as.
\<close>

datatype val = VNum rat | VStr string | VNaN

text \<open>
  A pandas data frame: the column labels in order, and the rows, each row listing its cells
  by column label. Labels may repeat (a rename can make them collide); a lookup by label
  reads the first cell with that label and a missing cell reads as NaN.
\<close>

type_synonym row = "(string \<times> val) list"

record dataframe =
  columns :: "string list"
  rows :: "row list"

definition cell :: "row \<Rightarrow> string \<Rightarrow> val" where
  "cell r c = (case map_of r c of Some v \<Rightarrow> v | None \<Rightarrow> VNaN)"

definition project :: "string list \<Rightarrow> row \<Rightarrow> row" where
  "project cs r = map (\<lambda>c. (c, cell r c)) cs"

text \<open>\<open>df[c] = values\<close>: overwrite the column when it exists, append it otherwise.\<close>

definition set_cell :: "string \<Rightarrow> val \<Rightarrow> row \<Rightarrow> row" where
  "set_cell c v r =
     (if c \<in> fst ` set r then map (\<lambda>(k, x). if k = c then (k, v) else (k, x)) r
      else r @ [(c, v)])"

definition assign_col :: "string \<Rightarrow> val list \<Rightarrow> dataframe \<Rightarrow> dataframe" where
  "assign_col c vs df =
     \<lparr>columns = (if c \<in> set (columns df) then columns df else columns df @ [c]),
      rows = map (\<lambda>(v, r). set_cell c v r) (zip vs (rows df))\<rparr>"

text \<open>What a call hands back: \<open>None\<close>, the empty tuple, a data frame or a count.\<close>

datatype pyobj = PNone | PTuple0 | PFrame dataframe | PSize nat

section \<open>The backing store\<close>

text \<open>
  The database engine is an external collaborator. The queries this repository composes
  are \<open>SELECT columns FROM table [WHERE c1 AND c2 ...]\<close> with each condition either
  \<open>column = literal\<close> or \<open>column IN (literals)\<close>; a query is kept in that shape, and the
  engine is modelled by the usual meaning of such a query: an unknown table or column,
  an empty column list, an empty \<open>IN ()\<close> list or a closed connection is an error, a row
  is kept when every condition holds of it, and a missing cell satisfies no condition.
\<close>

datatype cond = Eq string val | In string "val list"

record database =
  connected :: bool
  relations :: "string \<Rightarrow> dataframe option"
  raw_sql :: "string \<Rightarrow> exn + dataframe"

fun cond_col :: "cond \<Rightarrow> string" where
  "cond_col (Eq k v) = k"
| "cond_col (In k vs) = k"

fun cond_ok :: "cond \<Rightarrow> bool" where
  "cond_ok (Eq k v) = True"
| "cond_ok (In k vs) = (vs \<noteq> [])"

fun holds :: "row \<Rightarrow> cond \<Rightarrow> bool" where
  "holds r (Eq k v) = (cell r k \<noteq> VNaN \<and> cell r k = v)"
| "holds r (In k vs) = (cell r k \<noteq> VNaN \<and> cell r k \<in> set vs)"

definition read_sql_query ::
  "database \<Rightarrow> string \<Rightarrow> string list \<Rightarrow> cond list \<Rightarrow> exn + dataframe" where
  "read_sql_query db name variables wh =
     (if \<not> connected db then Inl DatabaseError
      else case relations db name of
        None \<Rightarrow> Inl DatabaseError
      | Some t \<Rightarrow>
          let sel = (if variables = [''*''] then columns t else variables) in
          if sel = [] \<or> \<not> list_all (\<lambda>c. c \<in> set (columns t)) sel
             \<or> \<not> list_all (\<lambda>c. cond_col c \<in> set (columns t) \<and> cond_ok c) wh
          then Inl DatabaseError
          else Inr \<lparr>columns = sel,
                    rows = map (project sel) (filter (\<lambda>r. list_all (holds r) wh) (rows t))\<rparr>)"

text \<open>What the outside world sees of a run: the queries issued, the pages fetched and the
  messages printed
  (a message of the code's own by its kind, a printed exception by the exception).\<close>

datatype message = NoColleges | BadKeepGeography | BadHow | BadCipLevel
  | UpToDate "string option"

datatype event = Query string "string list" "cond list" | RawQuery string
  | HttpGet string | Print message | PrintExn exn

section \<open>Python string helpers\<close>

text \<open>
  Strings are lists of characters with code points below 256. \<open>s.split(sep)\<close> for a
  non-empty separator gives the pieces between the occurrences of \<open>sep\<close>, scanning left to
  right; there is always at least one piece. The counter is the number of characters of a
  matched separator still to be skipped.
\<close>

fun split_go :: "string \<Rightarrow> nat \<Rightarrow> string \<Rightarrow> string \<Rightarrow> string list" where
  "split_go sep k acc [] = [rev acc]"
| "split_go sep (Suc k) acc (c # cs) = split_go sep k acc cs"
| "split_go sep 0 acc (c # cs) =
     (if take (length sep) (c # cs) = sep
      then rev acc # split_go sep (length sep - 1) [] cs
      else split_go sep 0 (c # acc) cs)"

definition py_split :: "string \<Rightarrow> string \<Rightarrow> string list" where
  "py_split s sep = split_go sep 0 [] s"

text \<open>\<open>str.isspace\<close> on code points below 256, and \<open>s.split()\<close> with no separator:
  the maximal runs of non-space characters.\<close>

definition isspace :: "char \<Rightarrow> bool" where
  "isspace c = (of_char c \<in> {9, 10, 11, 12, 13, 28, 29, 30, 31, 32, 133, 160 :: nat})"

fun split_ws_go :: "string \<Rightarrow> string \<Rightarrow> string list" where
  "split_ws_go acc [] = (if acc = [] then [] else [rev acc])"
| "split_ws_go acc (c # cs) =
     (if isspace c then (if acc = [] then split_ws_go [] cs else rev acc # split_ws_go [] cs)
      else split_ws_go (c # acc) cs)"

definition py_split_ws :: "string \<Rightarrow> string list" where
  "py_split_ws s = split_ws_go [] s"

section \<open>IPEDSHandler\<close>

text \<open>
  The handler after \<open>connect\<close>: the connection, the decode dictionary
  (variable \<open>\<rightarrow>\<close> code \<open>\<rightarrow>\<close> label) and the rename dictionary (table \<open>\<rightarrow>\<close> variable \<open>\<rightarrow>\<close> title).
\<close>

record handler =
  conn :: database
  metadata :: "string \<Rightarrow> (val \<Rightarrow> val option) option"
  varnames :: "string \<Rightarrow> (string \<Rightarrow> string option) option"

text \<open>\<open>df.replace(metadata)\<close> with a nested dictionary: in a column whose label is a key,
  a cell equal to a code (a number by its value) becomes its label; all replacements
  are made at once.\<close>

definition replace_cell :: "(string \<Rightarrow> (val \<Rightarrow> val option) option) \<Rightarrow> string \<Rightarrow> val \<Rightarrow> val" where
  "replace_cell md c v =
     (case md c of None \<Rightarrow> v | Some d \<Rightarrow> (case d v of None \<Rightarrow> v | Some l \<Rightarrow> l))"

definition df_replace :: "(string \<Rightarrow> (val \<Rightarrow> val option) option) \<Rightarrow> dataframe \<Rightarrow> dataframe" where
  "df_replace md df =
     \<lparr>columns = columns df, rows = map (map (\<lambda>(c, v). (c, replace_cell md c v))) (rows df)\<rparr>"

text \<open>\<open>df.rename(columns=m)\<close>: every label that is a key of \<open>m\<close> becomes its title.\<close>

definition rename_label :: "(string \<Rightarrow> string option) \<Rightarrow> string \<Rightarrow> string" where
  "rename_label m c = (case m c of None \<Rightarrow> c | Some t \<Rightarrow> t)"

definition df_rename :: "(string \<Rightarrow> string option) \<Rightarrow> dataframe \<Rightarrow> dataframe" where
  "df_rename m df =
     \<lparr>columns = map (rename_label m) (columns df),
      rows = map (map (\<lambda>(c, v). (rename_label m c, v))) (rows df)\<rparr>"

definition clean :: "handler \<Rightarrow> dataframe \<Rightarrow> string \<Rightarrow> bool \<Rightarrow> bool \<Rightarrow> exn + dataframe" where
  "clean h df name replace rename =
     (let df1 = (if replace then df_replace (metadata h) df else df) in
      if rename then (case varnames h name of
                        None \<Rightarrow> Inl KeyError
                      | Some m \<Rightarrow> Inr (df_rename m df1))
      else Inr df1)"

text \<open>The tail shared by the three branches of \<open>select\<close>: clean when asked, and turn
  an exception into a printed message and \<open>None\<close>.\<close>

definition select_finish ::
  "handler \<Rightarrow> dataframe \<Rightarrow> string \<Rightarrow> bool \<Rightarrow> bool \<Rightarrow> event list \<Rightarrow> pyobj \<times> event list" where
  "select_finish h table name replace rename evs =
     (if replace \<or> rename then
        (case clean h table name replace rename of
           Inl e \<Rightarrow> (PNone, evs @ [PrintExn e])
         | Inr t \<Rightarrow> (PFrame t, evs))
      else (PFrame table, evs))"

text \<open>
  \<open>select\<close>. The \<open>where\<close> string is kept as its list of conditions (\<open>[]\<close> for \<open>''\<close>), so the
  two branches that differ only in the \<open>WHERE\<close> suffix are one. Everything runs inside the
  \<open>try\<close>, so no exception leaves.
\<close>

definition select ::
  "handler \<Rightarrow> string \<Rightarrow> string list \<Rightarrow> cond list \<Rightarrow> string \<Rightarrow> bool \<Rightarrow> bool \<Rightarrow> event list
   \<Rightarrow> pyobj \<times> event list" where
  "select h name variables wh sql replace rename evs =
     (if name = [] \<and> sql = [] then (PNone, evs)
      else if sql = [] then
        (case read_sql_query (conn h) name variables wh of
           Inl e \<Rightarrow> (PNone, evs @ [Query name variables wh, PrintExn e])
         | Inr table \<Rightarrow>
             select_finish h table name replace rename (evs @ [Query name variables wh]))
      else
        (case (if connected (conn h) then raw_sql (conn h) sql else Inl DatabaseError) of
           Inl e \<Rightarrow> (PNone, evs @ [RawQuery sql, PrintExn e])
         | Inr table \<Rightarrow>
             (case py_split sql ''FROM '' of
                a # b # rest \<Rightarrow>
                  (case py_split_ws b of
                     [] \<Rightarrow> (PNone, evs @ [RawQuery sql, PrintExn IndexError])
                   | n # ns \<Rightarrow> select_finish h table n replace rename (evs @ [RawQuery sql]))
              | _ \<Rightarrow> (PNone, evs @ [RawQuery sql, PrintExn IndexError]))))"

text \<open>
  \<open>get_unitid\<close>. A geography filter is an integer or a list of integers; both render as
  one \<open>IN (...)\<close> condition (joining an integer fails and the handler formats it alone).
\<close>

datatype geo = Scalar int | Listed "int list"

fun in_clause :: "string \<Rightarrow> geo option \<Rightarrow> cond list" where
  "in_clause col None = []"
| "in_clause col (Some (Scalar x)) = [In col [VNum (of_int x)]]"
| "in_clause col (Some (Listed xs)) = [In col (map (\<lambda>x. VNum (of_int x)) xs)]"

text \<open>Adding two string columns cell by cell: a missing cell stays missing, and a
  number cannot be added to a string.\<close>

fun str_add :: "val \<Rightarrow> val \<Rightarrow> exn + val" where
  "str_add (VStr a) (VStr b) = Inr (VStr (a @ b))"
| "str_add VNaN b = Inr VNaN"
| "str_add a VNaN = Inr VNaN"
| "str_add a b = Inl TypeError"

fun sequence :: "(exn + 'a) list \<Rightarrow> exn + 'a list" where
  "sequence [] = Inr []"
| "sequence (x # xs) =
     (case x of Inl e \<Rightarrow> Inl e
      | Inr v \<Rightarrow> (case sequence xs of Inl e \<Rightarrow> Inl e | Inr vs \<Rightarrow> Inr (v # vs)))"

definition county_label :: "row \<Rightarrow> exn + val" where
  "county_label r =
     (case str_add (cell r ''COUNTYNM'') (VStr '', '') of
        Inl e \<Rightarrow> Inl e
      | Inr v \<Rightarrow> str_add v (cell r ''STABBR''))"

definition decode_geography :: "dataframe \<Rightarrow> exn + dataframe" where
  "decode_geography utd =
     (let utd1 = assign_col ''FIPS'' (map (\<lambda>r. cell r ''STABBR'') (rows utd)) utd in
      case sequence (map county_label (rows utd1)) of
        Inl e \<Rightarrow> Inl e
      | Inr vs \<Rightarrow> Inr (assign_col ''COUNTYCD'' vs utd1))"

definition get_unitid ::
  "handler \<Rightarrow> geo option \<Rightarrow> geo option \<Rightarrow> geo option \<Rightarrow> bool \<Rightarrow> event list
   \<Rightarrow> (exn + pyobj) \<times> event list" where
  "get_unitid h state_fips county_fips zipcode clean_geography evs =
     (if state_fips = None \<and> county_fips = None \<and> zipcode = None then (Inr PTuple0, evs)
      else
        let wh = in_clause ''FIPS'' state_fips @ in_clause ''COUNTYCD'' county_fips
                 @ in_clause ''ZIP'' zipcode;
            (utd, evs1) = select h ''HD2019''
                 [''UNITID'', ''FIPS'', ''STABBR'', ''COUNTYCD'', ''COUNTYNM'', ''ZIP'']
                 wh [] False False evs
        in if clean_geography then
             (case utd of
                PFrame df \<Rightarrow>
                  (case decode_geography df of
                     Inl e \<Rightarrow> (Inl e, evs1)
                   | Inr df1 \<Rightarrow> (Inr (PFrame df1), evs1))
              | _ \<Rightarrow> (Inl TypeError, evs1))
           else (Inr utd, evs1))"

subsection \<open>Classification-code normalisation\<close>

text \<open>\<open>str(n)\<close> for an integer: decimal digits, with a minus sign when negative.\<close>

definition digit_char :: "nat \<Rightarrow> char" where
  "digit_char n = char_of (48 + n)"

function str_nat :: "nat \<Rightarrow> string" where
  "str_nat n = (if n < 10 then [digit_char n] else str_nat (n div 10) @ [digit_char (n mod 10)])"
  by pat_completeness auto
termination
  by (relation "measure id") auto

declare str_nat.simps [simp del]

definition str_int :: "int \<Rightarrow> string" where
  "str_int i = (if i < 0 then CHR ''-'' # str_nat (nat (- i)) else str_nat (nat i))"

text \<open>
  \<open>int(s)\<close> for a string: blanks are stripped from both ends, one sign may lead, and the
  rest must be decimal digits, with single underscores allowed between digits, and at
  most 4300 digits (the interpreter's default limit); anything else is a \<open>ValueError\<close>.
\<close>

definition isdigit :: "char \<Rightarrow> bool" where
  "isdigit c = (48 \<le> (of_char c :: nat) \<and> (of_char c :: nat) \<le> 57)"

definition int_space :: "char \<Rightarrow> bool" where
  "int_space c = (of_char c \<in> {9, 10, 11, 12, 13, 32, 133, 160 :: nat})"

definition strip_int :: "string \<Rightarrow> string" where
  "strip_int s = rev (dropWhile int_space (rev (dropWhile int_space s)))"

fun digits_ok :: "string \<Rightarrow> bool" where
  "digits_ok [] = False"
| "digits_ok [c] = isdigit c"
| "digits_ok (c # d # cs) =
     (isdigit c \<and> (if d = CHR ''_'' then digits_ok cs else digits_ok (d # cs)))"

definition dec :: "string \<Rightarrow> nat" where
  "dec s = foldl (\<lambda>a c. 10 * a + (of_char c - 48)) 0 s"

definition py_int :: "string \<Rightarrow> exn + int" where
  "py_int s =
     (let t = strip_int s;
          neg = (case t of [] \<Rightarrow> False | c # cs \<Rightarrow> c = CHR ''-'');
          u = (case t of [] \<Rightarrow> [] | c # cs \<Rightarrow> if c = CHR ''-'' \<or> c = CHR ''+'' then cs else t)
      in if digits_ok u \<and> length (filter (\<lambda>c. c \<noteq> CHR ''_'') u) \<le> 4300
         then Inr (if neg then - int (dec (filter (\<lambda>c. c \<noteq> CHR ''_'') u))
                   else int (dec (filter (\<lambda>c. c \<noteq> CHR ''_'') u)))
         else Inl ValueError)"

text \<open>\<open>'{:>02d}'.format(n)\<close>: the decimal text of \<open>n\<close>, filled on the left with zeros up to
  width 2; a text already 2 or more characters long is left as it is.\<close>

definition format_02d :: "int \<Rightarrow> string" where
  "format_02d n = replicate (2 - length (str_int n)) (CHR ''0'') @ str_int n"

text \<open>
  An element of the \<open>cipcode\<close> list: an integer, a string or a float. The code reads an
  element only through \<open>str\<close>, so a float is carried as the text \<open>str\<close> prints for it.
  (\<open>str\<close> of an integer of more than 4300 digits is a \<open>ValueError\<close> as well; here it is
  raised one step later, by \<open>int\<close> on that text, inside the same expression.)
\<close>

datatype cipval = CInt int | CStr string | CFloat string

fun py_str :: "cipval \<Rightarrow> string" where
  "py_str (CInt n) = str_int n"
| "py_str (CStr s) = s"
| "py_str (CFloat s) = s"

text \<open>One pass of the loop body: \<open>front\<close> from the piece before the first dot, \<open>back\<close> the
  dot and the second piece when there is one (the \<open>IndexError\<close> is caught otherwise).\<close>

definition normalize_code :: "cipval \<Rightarrow> exn + string" where
  "normalize_code c =
     (case py_split (py_str c) ''.'' of
        [] \<Rightarrow> Inl IndexError
      | a # rest \<Rightarrow>
          (case py_int a of
             Inl e \<Rightarrow> Inl e
           | Inr n \<Rightarrow> Inr (format_02d n @ (case rest of [] \<Rightarrow> [] | b # bs \<Rightarrow> CHR ''.'' # b))))"

text \<open>
  The loop \<open>for i in range(len(cipcode)): ... cipcode[i] = front + back\<close>. It writes into
  the list it was given; the list is returned with the exception (if any) that stopped
  the loop.
\<close>

function normalize_from :: "nat \<Rightarrow> cipval list \<Rightarrow> exn option \<times> cipval list" where
  "normalize_from i xs =
     (if i < length xs then
        (case normalize_code (xs ! i) of
           Inl e \<Rightarrow> (Some e, xs)
         | Inr s \<Rightarrow> normalize_from (Suc i) (xs[i := CStr s]))
      else (None, xs))"
  by pat_completeness auto
termination
  by (relation "measure (\<lambda>(i, xs). length xs - i)") auto

declare normalize_from.simps [simp del]

text \<open>\<open>awd['CIPCODE'].isin(cipcode)\<close> against the list of strings the loop leaves.\<close>

fun isin :: "val \<Rightarrow> cipval list \<Rightarrow> bool" where
  "isin (VStr s) xs = (CStr s \<in> set xs)"
| "isin v xs = False"

subsection \<open>Frame operations used by the queries\<close>

definition select_cols :: "string list \<Rightarrow> dataframe \<Rightarrow> dataframe" where
  "select_cols cs df = \<lparr>columns = cs, rows = map (project cs) (rows df)\<rparr>"

definition filter_rows :: "(row \<Rightarrow> bool) \<Rightarrow> dataframe \<Rightarrow> dataframe" where
  "filter_rows P df = \<lparr>columns = columns df, rows = filter P (rows df)\<rparr>"

text \<open>
  \<open>left.merge(right, on=key, how=...)\<close> for \<open>how\<close> \<open>inner\<close> and \<open>left\<close>: the rows of \<open>left\<close> in
  order, each paired with the rows of \<open>right\<close> that carry the same key, in order; with
  \<open>left\<close>, an unmatched row is kept with missing cells. A label other than the key that
  occurs on both sides gets the suffixes \<open>_x\<close> and \<open>_y\<close>. A key label that is absent is a
  \<open>KeyError\<close>, one that is not unique a \<open>ValueError\<close>. (\<open>right\<close> and \<open>outer\<close> joins and the
  strings pandas rejects are not embedded.)
\<close>

datatype join = Inner | LeftJoin

definition left_label :: "string \<Rightarrow> string list \<Rightarrow> string \<Rightarrow> string" where
  "left_label key rcols c = (if c \<noteq> key \<and> c \<in> set rcols then c @ ''_x'' else c)"

definition right_label :: "string list \<Rightarrow> string \<Rightarrow> string" where
  "right_label lcols c = (if c \<in> set lcols then c @ ''_y'' else c)"

definition right_part :: "string \<Rightarrow> string list \<Rightarrow> row \<Rightarrow> row" where
  "right_part key lcols r =
     map (\<lambda>(c, v). (right_label lcols c, v)) (filter (\<lambda>(c, v). c \<noteq> key) r)"

definition join_row :: "join \<Rightarrow> string \<Rightarrow> dataframe \<Rightarrow> dataframe \<Rightarrow> row \<Rightarrow> row list" where
  "join_row jn key l r lr =
     (let lpart = map (\<lambda>(c, v). (left_label key (columns r) c, v)) lr;
          ms = filter (\<lambda>rr. cell rr key = cell lr key) (rows r)
      in if ms = [] \<and> jn = LeftJoin
         then [lpart @ map (\<lambda>c. (right_label (columns l) c, VNaN))
                          (filter (\<lambda>c. c \<noteq> key) (columns r))]
         else map (\<lambda>rr. lpart @ right_part key (columns l) rr) ms)"

definition df_merge :: "join \<Rightarrow> dataframe \<Rightarrow> dataframe \<Rightarrow> string \<Rightarrow> exn + dataframe" where
  "df_merge jn l r key =
     (if key \<notin> set (columns l) \<or> key \<notin> set (columns r) then Inl KeyError
      else if count_list (columns l) key > 1 \<or> count_list (columns r) key > 1
      then Inl ValueError
      else Inr \<lparr>columns = map (left_label key (columns r)) (columns l)
                          @ map (right_label (columns l)) (filter (\<lambda>c. c \<noteq> key) (columns r)),
                rows = concat (map (join_row jn key l r) (rows l))\<rparr>)"

subsection \<open>school\_query\<close>

text \<open>
  The keyword arguments shared by \<open>school_query\<close>, \<open>awards\<close>, \<open>programs\<close> and \<open>schools\<close>,
  with the types their docstrings give. \<open>cip_level\<close> is an integer or a string.
\<close>

datatype level = LInt int | LStr string

record args =
  state_fips :: "geo option"
  county_fips :: "geo option"
  zipcode :: "geo option"
  cip_level :: level
  cipcode :: "cipval list"
  majornum :: int
  unitid :: "val list"
  how :: string
  rename :: bool
  label :: bool
  keep_geography :: "string option"
  clean_geography :: bool

definition defaults :: args where
  "defaults = \<lparr>state_fips = None, county_fips = None, zipcode = None, cip_level = LInt 6,
     cipcode = [], majornum = 1, unitid = [], how = ''total'', rename = True, label = False,
     keep_geography = None, clean_geography = False\<rparr>"

text \<open>
  The first block of \<open>school_query\<close>: with a geography filter, resolve the institutions.
  It either ends the call (\<open>Inl\<close>: the value returned or the exception raised) or goes on
  (\<open>Inr\<close>) with \<open>geog\<close>, when it was bound, and the list of ids.
\<close>

definition resolve ::
  "handler \<Rightarrow> args \<Rightarrow> event list
   \<Rightarrow> ((exn + pyobj) + (dataframe option \<times> val list)) \<times> event list" where
  "resolve h a evs =
     (if state_fips a \<noteq> None \<or> county_fips a \<noteq> None \<or> zipcode a \<noteq> None then
        (case get_unitid h (state_fips a) (county_fips a) (zipcode a) (clean_geography a) evs of
           (Inl e, evs1) \<Rightarrow> (Inl (Inl e), evs1)
         | (Inr PNone, evs1) \<Rightarrow> (Inl (Inl TypeError), evs1)
         | (Inr (PSize n), evs1) \<Rightarrow> (Inl (Inl TypeError), evs1)
         | (Inr PTuple0, evs1) \<Rightarrow> (Inl (Inr PNone), evs1 @ [Print NoColleges])
         | (Inr (PFrame utd), evs1) \<Rightarrow>
             if length (rows utd) = 0 then (Inl (Inr PNone), evs1 @ [Print NoColleges])
             else
               (case keep_geography a of
                  None \<Rightarrow> (Inr (None, map (\<lambda>r. cell r ''UNITID'') (rows utd)), evs1)
                | Some kg \<Rightarrow>
                    if kg \<in> set (columns utd)
                    then (Inr (Some (select_cols [''UNITID'', kg] utd),
                               map (\<lambda>r. cell r ''UNITID'') (rows utd)), evs1)
                    else (Inl (Inr PNone), evs1 @ [Print BadKeepGeography])))
      else (Inr (None, unitid a), evs))"

definition how_variables :: "string \<Rightarrow> string list option" where
  "how_variables hw =
     (if hw = ''total'' then Some [''CTOTALT'']
      else if hw = ''race'' then
        Some [''CAIANT'', ''CASIAT'', ''CBKAAT'', ''CHISPT'', ''CNHPIT'', ''CUNKNT'', ''C2MORT'',
              ''CWHITT'']
      else if hw = ''sex'' then Some [''CTOTALM'', ''CTOTALW'']
      else if hw = ''race_sex'' then
        Some [''CAIANM'', ''CASIAM'', ''CBKAAM'', ''CHISPM'', ''CNHPIM'', ''CUNKNM'', ''C2MORM'',
              ''CWHITM'', ''CAIANF'', ''CASIAF'', ''CBKAAF'', ''CHISPF'', ''CNHPIF'', ''CUNKNF'',
              ''C2MORF'', ''CWHITF'']
      else None)"

text \<open>The \<open>cipcode\<close> block: normalise the list in place, then keep the rows whose code
  is in it. Subscripting \<open>None\<close> (a failed \<open>select\<close>) is a \<open>TypeError\<close>.\<close>

definition restrict_codes :: "pyobj \<Rightarrow> cipval list \<Rightarrow> (exn + pyobj) \<times> cipval list" where
  "restrict_codes awd codes =
     (if codes \<noteq> [] then
        (case normalize_from 0 codes of
           (Some e, codes1) \<Rightarrow> (Inl e, codes1)
         | (None, codes1) \<Rightarrow>
             (case awd of
                PFrame df \<Rightarrow>
                  (Inr (PFrame (filter_rows (\<lambda>r. isin (cell r ''CIPCODE'') codes1) df)), codes1)
              | _ \<Rightarrow> (Inl TypeError, codes1)))
      else (Inr awd, codes))"

text \<open>The last block: \<open>awd.merge(geog, on='UNITID')\<close> when \<open>keep_geography\<close> is set.
  \<open>awd.merge\<close> is looked up first, then the name \<open>geog\<close>.\<close>

definition attach_geography :: "string option \<Rightarrow> dataframe option \<Rightarrow> pyobj \<Rightarrow> exn + pyobj" where
  "attach_geography kg geog awd =
     (if kg \<noteq> None then
        (case awd of
           PFrame df \<Rightarrow>
             (case geog of
                None \<Rightarrow> Inl NameError
              | Some g \<Rightarrow>
                  (case df_merge Inner df g ''UNITID'' of
                     Inl e \<Rightarrow> Inl e
                   | Inr m \<Rightarrow> Inr (PFrame m)))
         | _ \<Rightarrow> Inl AttributeError)
      else Inr awd)"

text \<open>
  \<open>school_query\<close>. It returns what the call returns or raises, the caller's \<open>cipcode\<close> list
  as the call leaves it, and the events. \<open>cip_level\<close>, \<open>rename\<close> and \<open>label\<close> are accepted
  and never read.
\<close>

definition school_query ::
  "handler \<Rightarrow> args \<Rightarrow> event list \<Rightarrow> (exn + pyobj) \<times> cipval list \<times> event list" where
  "school_query h a evs =
     (case resolve h a evs of
        (Inl done, evs1) \<Rightarrow> (done, cipcode a, evs1)
      | (Inr (geog, ids), evs1) \<Rightarrow>
          (let wh = Eq ''MAJORNUM'' (VNum (of_int (majornum a)))
                    # (if length ids > 0 then [In ''UNITID'' ids] else [])
           in (case how_variables (how a) of
                 None \<Rightarrow> (Inr PNone, cipcode a, evs1 @ [Print BadHow])
               | Some variables \<Rightarrow>
                   (case select h ''C2019_A'' ([''UNITID'', ''CIPCODE''] @ variables) wh []
                           False False evs1 of
                      (awd, evs2) \<Rightarrow>
                        (case restrict_codes awd (cipcode a) of
                           (Inl e, codes1) \<Rightarrow> (Inl e, codes1, evs2)
                         | (Inr awd1, codes1) \<Rightarrow>
                             (attach_geography (keep_geography a) geog awd1, codes1,
                              evs2))))))"

subsection \<open>Grouping\<close>

text \<open>
  \<open>df.groupby(keys)\<close>: the groups are the distinct key tuples with no missing cell, in
  sorted order (numbers by value, strings by code point, numbers before strings).
  \<open>.sum().reset_index()\<close> gives the key columns followed by every other column summed
  over the group, \<open>[c].count()\<close> the key columns followed by the number of cells of \<open>c\<close>
  that are not missing. The summed columns are the numeric award counts: a cell that
  is not a number adds nothing. An absent label is a \<open>KeyError\<close>.
\<close>

fun val_rank :: "val \<Rightarrow> nat \<times> rat \<times> string" where
  "val_rank (VNum q) = (0, q, [])"
| "val_rank (VStr s) = (1, 0, s)"
| "val_rank VNaN = (2, 0, [])"

definition key_of :: "string list \<Rightarrow> row \<Rightarrow> val list" where
  "key_of ks r = map (cell r) ks"

definition group_keys :: "string list \<Rightarrow> dataframe \<Rightarrow> val list list" where
  "group_keys ks df =
     sort_key (map val_rank)
       (remdups (filter (\<lambda>k. VNaN \<notin> set k) (map (key_of ks) (rows df))))"

fun add_val :: "val \<Rightarrow> val \<Rightarrow> val" where
  "add_val (VNum a) (VNum b) = VNum (a + b)"
| "add_val a b = a"

definition sum_vals :: "val list \<Rightarrow> val" where
  "sum_vals vs = foldl add_val (VNum 0) vs"

definition groupby_sum :: "string list \<Rightarrow> dataframe \<Rightarrow> exn + dataframe" where
  "groupby_sum ks df =
     (if \<not> list_all (\<lambda>k. k \<in> set (columns df)) ks then Inl KeyError
      else
        let vcols = filter (\<lambda>c. c \<notin> set ks) (columns df) in
        Inr \<lparr>columns = ks @ vcols,
             rows = map (\<lambda>k. zip ks k
                          @ map (\<lambda>c. (c, sum_vals (map (\<lambda>r. cell r c)
                                            (filter (\<lambda>r. key_of ks r = k) (rows df))))) vcols)
                        (group_keys ks df)\<rparr>)"

definition groupby_count :: "string list \<Rightarrow> string \<Rightarrow> dataframe \<Rightarrow> exn + dataframe" where
  "groupby_count ks c df =
     (if \<not> list_all (\<lambda>k. k \<in> set (columns df)) ks \<or> c \<notin> set (columns df) then Inl KeyError
      else
        Inr \<lparr>columns = ks @ [c],
             rows = map (\<lambda>k. zip ks k
                          @ [(c, VNum (of_nat (length (filter
                                 (\<lambda>r. key_of ks r = k \<and> cell r c \<noteq> VNaN) (rows df)))))])
                        (group_keys ks df)\<rparr>)"

definition drop_col :: "string \<Rightarrow> dataframe \<Rightarrow> exn + dataframe" where
  "drop_col c df =
     (if c \<notin> set (columns df) then Inl KeyError
      else Inr \<lparr>columns = filter (\<lambda>k. k \<noteq> c) (columns df),
                rows = map (filter (\<lambda>(k, v). k \<noteq> c)) (rows df)\<rparr>)"

subsection \<open>awards, programs, schools\<close>

text \<open>The grouping keys: \<open>'CIPCODE'\<close>, preceded by \<open>keep_geography\<close> when it is set.\<close>

definition group_labels :: "string option \<Rightarrow> string list" where
  "group_labels kg = (case kg of None \<Rightarrow> [''CIPCODE''] | Some g \<Rightarrow> [g, ''CIPCODE''])"

text \<open>\<open>df['CIPNAME'] = df['CIPCODE'].replace(self.metadata['CIPCODE'])\<close> when \<open>label\<close> is
  set.\<close>

definition add_label :: "handler \<Rightarrow> bool \<Rightarrow> dataframe \<Rightarrow> exn + dataframe" where
  "add_label h lb df =
     (if lb then
        (case metadata h ''CIPCODE'' of
           None \<Rightarrow> Inl KeyError
         | Some d \<Rightarrow>
             Inr (assign_col ''CIPNAME''
                    (map (\<lambda>r. case d (cell r ''CIPCODE'') of
                                 None \<Rightarrow> cell r ''CIPCODE'' | Some l \<Rightarrow> l) (rows df)) df))
      else Inr df)"

text \<open>
  The granularity filter at the end of \<open>awards\<close> and \<open>programs\<close>: \<open>Inr None\<close> for a level
  that is none of \<open>6\<close>, \<open>4\<close>, \<open>2\<close>, \<open>'all'\<close>, \<open>'total'\<close>. The three numeric levels take \<open>len\<close>
  of every code, which is a \<open>TypeError\<close> on a code that is not a string, and index the
  table with the list of tests; on a table without rows that list is empty and selects
  no column.
\<close>

fun is_str :: "val \<Rightarrow> bool" where
  "is_str (VStr s) = True"
| "is_str v = False"

fun code_len :: "val \<Rightarrow> nat" where
  "code_len (VStr s) = length s"
| "code_len v = 0"

definition by_length :: "nat \<Rightarrow> dataframe \<Rightarrow> exn + dataframe option" where
  "by_length n df =
     (if rows df = [] then Inr (Some \<lparr>columns = [], rows = []\<rparr>)
      else if list_all (\<lambda>r. is_str (cell r ''CIPCODE'')) (rows df)
      then Inr (Some (filter_rows (\<lambda>r. code_len (cell r ''CIPCODE'') = n) df))
      else Inl TypeError)"

definition level_filter :: "level \<Rightarrow> dataframe \<Rightarrow> exn + dataframe option" where
  "level_filter lv df =
     (if lv = LInt 6 then by_length 7 df
      else if lv = LInt 4 then by_length 5 df
      else if lv = LInt 2 then by_length 2 df
      else if lv = LStr ''all'' then Inr (Some df)
      else if lv = LStr ''total''
      then Inr (Some (filter_rows (\<lambda>r. cell r ''CIPCODE'' = VStr ''99'') df))
      else Inr None)"

text \<open>The table \<open>awards\<close> builds from the result of \<open>school_query\<close>, up to the optional
  label column.\<close>

definition award_table :: "handler \<Rightarrow> args \<Rightarrow> dataframe \<Rightarrow> exn + dataframe" where
  "award_table h a q =
     (case drop_col ''UNITID'' q of
        Inl e \<Rightarrow> Inl e
      | Inr d \<Rightarrow>
          (case groupby_sum (group_labels (keep_geography a)) d of
             Inl e \<Rightarrow> Inl e
           | Inr g \<Rightarrow> add_label h (label a) g))"

definition awards ::
  "handler \<Rightarrow> args \<Rightarrow> event list \<Rightarrow> (exn + pyobj) \<times> cipval list \<times> event list" where
  "awards h a evs =
     (case school_query h a evs of
        (Inl e, codes, evs1) \<Rightarrow> (Inl e, codes, evs1)
      | (Inr (PFrame q), codes, evs1) \<Rightarrow>
          (case award_table h a q of
             Inl e \<Rightarrow> (Inl e, codes, evs1)
           | Inr awd \<Rightarrow>
               (case level_filter (cip_level a) awd of
                  Inl e \<Rightarrow> (Inl e, codes, evs1)
                | Inr None \<Rightarrow> (Inr PNone, codes, evs1 @ [Print BadCipLevel])
                | Inr (Some sel) \<Rightarrow>
                    (case clean h sel ''C2019_A'' False (rename a) of
                       Inl e \<Rightarrow> (Inl e, codes, evs1)
                     | Inr res \<Rightarrow> (Inr (PFrame res), codes, evs1))))
      | (Inr other, codes, evs1) \<Rightarrow> (Inl AttributeError, codes, evs1))"

text \<open>\<open>programs\<close> has no \<open>majornum\<close> and no \<open>how\<close>: \<open>school_query\<close> runs with their
  defaults. The count column \<open>UNITID\<close> is retitled \<open>PROG_COUNT\<close>.\<close>

definition program_table :: "handler \<Rightarrow> args \<Rightarrow> dataframe \<Rightarrow> exn + dataframe" where
  "program_table h a q =
     (case groupby_count (group_labels (keep_geography a)) ''UNITID'' q of
        Inl e \<Rightarrow> Inl e
      | Inr g \<Rightarrow>
          add_label h (label a)
            (df_rename (\<lambda>c. if c = ''UNITID'' then Some ''PROG_COUNT'' else None) g))"

definition programs ::
  "handler \<Rightarrow> args \<Rightarrow> event list \<Rightarrow> (exn + pyobj) \<times> cipval list \<times> event list" where
  "programs h a evs =
     (case school_query h (a\<lparr>majornum := 1, how := ''total''\<rparr>) evs of
        (Inl e, codes, evs1) \<Rightarrow> (Inl e, codes, evs1)
      | (Inr (PFrame q), codes, evs1) \<Rightarrow>
          (case program_table h a q of
             Inl e \<Rightarrow> (Inl e, codes, evs1)
           | Inr prog \<Rightarrow>
               (case level_filter (cip_level a) prog of
                  Inl e \<Rightarrow> (Inl e, codes, evs1)
                | Inr None \<Rightarrow> (Inr PNone, codes, evs1 @ [Print BadCipLevel])
                | Inr (Some sel) \<Rightarrow> (Inr (PFrame sel), codes, evs1)))
      | (Inr other, codes, evs1) \<Rightarrow> (Inl AttributeError, codes, evs1))"

text \<open>
  \<open>schools\<close> passes its geography arguments and \<open>unitid\<close> on, with \<open>cip_level='total'\<close>
  and every other argument of \<open>school_query\<close> at its default. Without \<open>keep_geography\<close> it
  returns \<open>schools['UNITID'].size\<close>, the number of rows, inside a \<open>try\<close>.
\<close>

definition schools :: "handler \<Rightarrow> args \<Rightarrow> event list \<Rightarrow> (exn + pyobj) \<times> event list" where
  "schools h a evs =
     (case school_query h
             (defaults\<lparr>state_fips := state_fips a, county_fips := county_fips a,
                zipcode := zipcode a, cip_level := LStr ''total'', unitid := unitid a,
                keep_geography := keep_geography a, clean_geography := clean_geography a\<rparr>)
             evs of
        (Inl e, codes, evs1) \<Rightarrow> (Inl e, evs1)
      | (Inr res, codes, evs1) \<Rightarrow>
          (case keep_geography a of
             None \<Rightarrow>
               (case res of
                  PFrame df \<Rightarrow>
                    if ''UNITID'' \<in> set (columns df) then (Inr (PSize (length (rows df))), evs1)
                    else (Inr PNone, evs1 @ [PrintExn KeyError])
                | other \<Rightarrow> (Inr PNone, evs1 @ [PrintExn TypeError]))
           | Some kg \<Rightarrow>
               (case res of
                  PFrame df \<Rightarrow>
                    (case groupby_count [kg] ''UNITID'' df of
                       Inl e \<Rightarrow> (Inl e, evs1)
                     | Inr g \<Rightarrow> (Inr (PFrame g), evs1))
                | other \<Rightarrow> (Inl AttributeError, evs1))))"

section \<open>ONETHandler\<close>

text \<open>
  The bookkeeping of the handler, and the release page as \<open>BeautifulSoup\<close> hands it over:
  the text of the first \<open>h2\<close> (if there is one) and the \<open>href\<close> of every anchor (absent for
  an anchor without one). A version number is a float; it is carried as the decimal
  value it was written as.
\<close>

record onet =
  target :: string
  current :: "string option"
  version :: rat
  current_path :: "string option"

record release_page =
  first_h2 :: "string option"
  hrefs :: "string option list"

text \<open>
  \<open>float(s)\<close> on plain decimal text: blanks stripped from both ends, one optional sign,
  digits with at most one dot and at least one digit. Exponents, \<open>inf\<close>, \<open>nan\<close> and digit
  separators are not embedded and count as a \<open>ValueError\<close> here.
\<close>

definition py_float :: "string \<Rightarrow> exn + rat" where
  "py_float s =
     (let t = strip_int s;
          neg = (case t of [] \<Rightarrow> False | c # cs \<Rightarrow> c = CHR ''-'');
          u = (case t of [] \<Rightarrow> [] | c # cs \<Rightarrow> if c = CHR ''-'' \<or> c = CHR ''+'' then cs else t);
          sgn = (if neg then - 1 else 1 :: rat)
      in case py_split u ''.'' of
           [a] \<Rightarrow> if a \<noteq> [] \<and> list_all isdigit a then Inr (sgn * of_nat (dec a))
                  else Inl ValueError
         | [a, b] \<Rightarrow>
             if (a \<noteq> [] \<or> b \<noteq> []) \<and> list_all isdigit a \<and> list_all isdigit b
             then Inr (sgn * (of_nat (dec a) + of_nat (dec b) / 10 ^ length b))
             else Inl ValueError
         | other \<Rightarrow> Inl ValueError)"

text \<open>\<open>p in s\<close> for strings.\<close>

definition contains :: "string \<Rightarrow> string \<Rightarrow> bool" where
  "contains p s = list_ex (\<lambda>k. take (length p) (drop k s) = p) [0..<Suc (length s)]"

text \<open>\<open>float(soup.find('h2').text.split('O*NET ')[1].split()[0])\<close>.\<close>

definition parse_version :: "release_page \<Rightarrow> exn + rat" where
  "parse_version pg =
     (case first_h2 pg of
        None \<Rightarrow> Inl AttributeError
      | Some t \<Rightarrow>
          (case py_split t ''O*NET '' of
             a # b # rest \<Rightarrow>
               (case py_split_ws b of [] \<Rightarrow> Inl IndexError | w # ws \<Rightarrow> py_float w)
           | other \<Rightarrow> Inl IndexError))"

text \<open>The first anchor whose \<open>href\<close> contains \<open>text.zip\<close>, after the site's address; the
  test fails with a \<open>TypeError\<close> on an anchor without \<open>href\<close>.\<close>

definition archive_link :: "release_page \<Rightarrow> exn + string" where
  "archive_link pg =
     (if None \<in> set (hrefs pg) then Inl TypeError
      else case filter (contains ''text.zip'')
                  (concat (map (\<lambda>x. case x of None \<Rightarrow> [] | Some l \<Rightarrow> [l]) (hrefs pg))) of
             [] \<Rightarrow> Inl IndexError
           | l # ls \<Rightarrow> Inr (''https://www.onetcenter.org'' @ l))"

text \<open>
  \<open>get_new_database\<close>, given what fetching the release page yields. When the remote
  version is newer it calls \<open>self.donwload_data(file)\<close>; the class defines \<open>download_data\<close>
  and no \<open>donwload_data\<close>, so the attribute lookup raises and the three assignments to
  \<open>current\<close>, \<open>version\<close> and \<open>current_path\<close> after it are never run.
\<close>

definition get_new_database ::
  "(exn + release_page) \<Rightarrow> onet \<Rightarrow> event list \<Rightarrow> (exn + pyobj) \<times> onet \<times> event list" where
  "get_new_database web st evs =
     (let evs1 = evs @ [HttpGet ''https://www.onetcenter.org/db_releases.html''] in
      case web of
        Inl e \<Rightarrow> (Inl e, st, evs1)
      | Inr pg \<Rightarrow>
          (case parse_version pg of
             Inl e \<Rightarrow> (Inl e, st, evs1)
           | Inr new_version \<Rightarrow>
               if version st \<ge> new_version
               then (Inr PTuple0, st, evs1 @ [Print (UpToDate (current st))])
               else
                 (case archive_link pg of
                    Inl e \<Rightarrow> (Inl e, st, evs1)
                  | Inr file \<Rightarrow> (Inl AttributeError, st, evs1))))"

section \<open>Rosetta\<close>










section \<open>Properties stated in the specification's words\<close>

text \<open>The pattern \<open>\d{2}(\.\d+)?\<close>, matched against a whole string.\<close>

fun cip_pattern :: "string \<Rightarrow> bool" where
  "cip_pattern (a # b # rest) =
     (isdigit a \<and> isdigit b \<and>
      (case rest of
         [] \<Rightarrow> True
       | c # fs \<Rightarrow> c = CHR ''.'' \<and> fs \<noteq> [] \<and> list_all isdigit fs))"
| "cip_pattern s = False"

text \<open>The number of distinct institution ids present in a relation.\<close>

definition institution_count :: "dataframe \<Rightarrow> nat" where
  "institution_count df = length (remdups (map (\<lambda>r. cell r ''UNITID'') (rows df)))"

text \<open>The rows of a returned frame (none when the call returned no frame).\<close>

fun result_rows :: "exn + pyobj \<Rightarrow> row list" where
  "result_rows (Inr (PFrame df)) = rows df"
| "result_rows other = []"

section \<open>Worked inputs\<close>

text \<open>
  A small database in the layout of the 2019-20 release: two institutions in two
  states, and award rows of the first one at each granularity of classification code.
\<close>

definition example_hd2019 :: dataframe where
  "example_hd2019 =
     \<lparr>columns = [''UNITID'', ''FIPS'', ''STABBR'', ''COUNTYCD'', ''COUNTYNM'', ''ZIP''],
      rows = [[(''UNITID'', VNum 100654), (''FIPS'', VNum 1), (''STABBR'', VStr ''AL''),
               (''COUNTYCD'', VNum 1089), (''COUNTYNM'', VStr ''Madison County''),
               (''ZIP'', VNum 35762)],
              [(''UNITID'', VNum 110635), (''FIPS'', VNum 6), (''STABBR'', VStr ''CA''),
               (''COUNTYCD'', VNum 6001), (''COUNTYNM'', VStr ''Alameda County''),
               (''ZIP'', VNum 94720)]]\<rparr>"

definition example_c2019_a :: dataframe where
  "example_c2019_a =
     \<lparr>columns = [''UNITID'', ''CIPCODE'', ''MAJORNUM'', ''CTOTALT''],
      rows = [[(''UNITID'', VNum 100654), (''CIPCODE'', VStr ''01.0101''),
               (''MAJORNUM'', VNum 1), (''CTOTALT'', VNum 5)],
              [(''UNITID'', VNum 100654), (''CIPCODE'', VStr ''01.01''),
               (''MAJORNUM'', VNum 1), (''CTOTALT'', VNum 5)],
              [(''UNITID'', VNum 100654), (''CIPCODE'', VStr ''45''),
               (''MAJORNUM'', VNum 1), (''CTOTALT'', VNum 7)],
              [(''UNITID'', VNum 100654), (''CIPCODE'', VStr ''99''),
               (''MAJORNUM'', VNum 1), (''CTOTALT'', VNum 12)]]\<rparr>"

definition example_ipeds :: handler where
  "example_ipeds =
     \<lparr>conn = \<lparr>connected = True,
              relations = [''HD2019'' \<mapsto> example_hd2019, ''C2019_A'' \<mapsto> example_c2019_a],
              raw_sql = (\<lambda>q. Inl DatabaseError)\<rparr>,
      metadata = [''CIPCODE'' \<mapsto> [VStr ''45'' \<mapsto> VStr ''Social Sciences'',
                                     VStr ''99'' \<mapsto> VStr ''Grand total'']],
      varnames = [''C2019_A'' \<mapsto> [''CTOTALT'' \<mapsto> ''Grand total'']]\<rparr>"

text \<open>A handler that has never downloaded a release, and a release page announcing
  version 28.0 with a link to its text archive.\<close>

definition example_onet :: onet where
  "example_onet =
     \<lparr>target = ''D:/data/ONET_database'', current = None, version = 0, current_path = None\<rparr>"

definition example_page :: release_page where
  "example_page =
     \<lparr>first_h2 = Some ''O*NET 28.0 Database'',
      hrefs = [Some ''/dictionary/28.0/text/'',
               Some ''/dl_files/database/db_28_0_text.zip'']\<rparr>"

text \<open>The table \<open>awards\<close> aggregates from the example database, before the
  granularity filter.\<close>

definition example_awards_table :: dataframe where
  "example_awards_table =
     \<lparr>columns = [''CIPCODE'', ''CTOTALT''],
      rows = [[(''CIPCODE'', VStr ''01.01''), (''CTOTALT'', VNum 5)],
              [(''CIPCODE'', VStr ''01.0101''), (''CTOTALT'', VNum 5)],
              [(''CIPCODE'', VStr ''45''), (''CTOTALT'', VNum 7)],
              [(''CIPCODE'', VStr ''99''), (''CTOTALT'', VNum 12)]]\<rparr>"

text \<open>A decode dictionary and a rename dictionary of one entry each, a frame they apply
  to, and a rename dictionary in which a title is itself a variable name.\<close>

definition example_titles :: handler where
  "example_titles =
     \<lparr>conn = conn example_ipeds,
      metadata = [''LEVEL'' \<mapsto> [VNum 1 \<mapsto> VStr ''Certificate'']],
      varnames = [''T'' \<mapsto> [''LEVEL'' \<mapsto> ''Award level'']]\<rparr>"

definition example_frame :: dataframe where
  "example_frame = \<lparr>columns = [''LEVEL''], rows = [[(''LEVEL'', VNum 1)]]\<rparr>"

definition example_chained :: handler where
  "example_chained =
     \<lparr>conn = conn example_ipeds, metadata = Map.empty,
      varnames = [''T'' \<mapsto> [''A'' \<mapsto> ''B'', ''B'' \<mapsto> ''C'']]\<rparr>"




section \<open>Facts about the helpers\<close>

lemma of_char_digit_char: "n < 10 \<Longrightarrow> (of_char (digit_char n) :: nat) = 48 + n"
  by (simp add: digit_char_def)

lemma isdigit_digit_char: "n < 10 \<Longrightarrow> isdigit (digit_char n)"
  by (simp add: isdigit_def of_char_digit_char)

lemma digit_char_0: "digit_char 0 = CHR ''0''"
  by code_simp

lemma str_nat_digits: "list_all isdigit (str_nat n)"
proof (induction n rule: str_nat.induct)
  case (1 n)
  show ?case
  proof (cases "n < 10")
    case True
    then show ?thesis by (subst str_nat.simps) (simp add: isdigit_digit_char)
  next
    case False
    with 1 show ?thesis by (subst str_nat.simps) (simp add: isdigit_digit_char)
  qed
qed

lemma str_nat_nonempty: "str_nat n \<noteq> []"
  by (subst str_nat.simps) simp

lemma dec_snoc: "dec (s @ [c]) = 10 * dec s + (of_char c - 48)"
  by (simp add: dec_def)

lemma dec_str_nat: "dec (str_nat n) = n"
proof (induction n rule: str_nat.induct)
  case (1 n)
  show ?case
  proof (cases "n < 10")
    case True
    then show ?thesis by (subst str_nat.simps) (simp add: dec_def of_char_digit_char)
  next
    case False
    with 1 show ?thesis by (subst str_nat.simps) (simp add: dec_snoc of_char_digit_char)
  qed
qed

lemma str_nat_small: "n < 10 \<Longrightarrow> str_nat n = [digit_char n]"
  by (subst str_nat.simps) simp

lemma str_nat_two:
  "10 \<le> n \<Longrightarrow> n < 100 \<Longrightarrow> str_nat n = [digit_char (n div 10), digit_char (n mod 10)]"
  by (subst str_nat.simps) (simp add: str_nat_small)

lemma isdigit_not_special:
  assumes "isdigit c"
  shows "c \<noteq> CHR ''_''" "c \<noteq> CHR ''.''" "c \<noteq> CHR ''-''" "c \<noteq> CHR ''+''" "\<not> int_space c"
  using assms by (auto simp: isdigit_def int_space_def)

lemma digits_ok_digits: "s \<noteq> [] \<Longrightarrow> list_all isdigit s \<Longrightarrow> digits_ok s"
  by (induction s rule: digits_ok.induct) (auto simp: isdigit_not_special)

lemma filter_underscore_digits: "list_all isdigit s \<Longrightarrow> filter (\<lambda>c. c \<noteq> CHR ''_'') s = s"
  by (induction s) (auto simp: isdigit_not_special)

lemma dropWhile_space_digits: "s \<noteq> [] \<Longrightarrow> isdigit (hd s) \<Longrightarrow> dropWhile int_space s = s"
  by (cases s) (auto simp: isdigit_not_special)

lemma strip_int_digits:
  assumes "s \<noteq> []" "list_all isdigit s"
  shows "strip_int s = s"
proof -
  have h: "isdigit (hd s)" using assms by (cases s) auto
  have l: "isdigit (hd (rev s))" using assms by (simp add: hd_rev list_all_iff)
  show ?thesis
    using assms h l by (simp add: strip_int_def dropWhile_space_digits)
qed

lemma py_int_digits:
  assumes "s \<noteq> []" "list_all isdigit s" "length s \<le> 4300"
  shows "py_int s = Inr (int (dec s))"
proof -
  obtain c cs where s: "s = c # cs" using assms(1) by (cases s) auto
  have c: "isdigit c" using assms(2) s by simp
  have l: "length cs \<le> 4299" using assms(3) s by simp
  show ?thesis
    using assms(1,2) c s l
    by (simp add: py_int_def strip_int_digits digits_ok_digits filter_underscore_digits
        isdigit_not_special del: digits_ok.simps)
qed

lemma split_go_no_dot:
  "CHR ''.'' \<notin> set a \<Longrightarrow> split_go ''.'' 0 acc a = [rev acc @ a]"
  by (induction a arbitrary: acc) auto

lemma split_go_dot:
  "CHR ''.'' \<notin> set a \<Longrightarrow>
   split_go ''.'' 0 acc (a @ CHR ''.'' # b) = (rev acc @ a) # split_go ''.'' 0 [] b"
  by (induction a arbitrary: acc) auto

lemma digits_no_dot: "list_all isdigit s \<Longrightarrow> CHR ''.'' \<notin> set s"
  using isdigit_not_special(2) by (auto simp: list_all_iff)

lemma py_split_digits: "list_all isdigit ds \<Longrightarrow> py_split ds ''.'' = [ds]"
  by (simp add: py_split_def split_go_no_dot digits_no_dot)

lemma py_split_digits_dot:
  "list_all isdigit ds \<Longrightarrow> list_all isdigit fs \<Longrightarrow> py_split (ds @ ''.'' @ fs) ''.'' = [ds, fs]"
  by (simp add: py_split_def split_go_no_dot split_go_dot digits_no_dot)

lemma format_02d_small:
  "n < 100 \<Longrightarrow> format_02d (int n) = [digit_char (n div 10), digit_char (n mod 10)]"
proof (cases "n < 10")
  case True
  then show ?thesis by (simp add: format_02d_def str_int_def str_nat_small digit_char_0)
next
  case False
  assume "n < 100"
  with False show ?thesis by (simp add: format_02d_def str_int_def str_nat_two)
qed

lemma split_go_nonempty: "split_go sep k acc s \<noteq> []"
  by (induction sep k acc s rule: split_go.induct) auto

lemma normalize_code_parts:
  "py_split (py_str c) ''.'' = a # rest \<Longrightarrow> py_int a = Inr n \<Longrightarrow>
   normalize_code c = Inr (format_02d n @ (case rest of [] \<Rightarrow> [] | b # bs \<Rightarrow> CHR ''.'' # b))"
  by (simp add: normalize_code_def)

lemma normalize_code_int:
  assumes "0 \<le> n" "length (str_int n) \<le> 4300"
  shows "normalize_code (CInt n) = Inr (format_02d n)"
proof -
  have s: "str_int n = str_nat (nat n)" using assms(1) by (simp add: str_int_def)
  have "py_int (str_nat (nat n)) = Inr (int (dec (str_nat (nat n))))"
    using assms(2) s by (intro py_int_digits) (simp_all add: str_nat_nonempty str_nat_digits)
  then have "py_int (str_nat (nat n)) = Inr n" using assms(1) by (simp add: dec_str_nat)
  moreover have "py_split (py_str (CInt n)) ''.'' = [str_nat (nat n)]"
    using s by (simp add: py_split_digits str_nat_digits)
  ultimately show ?thesis using normalize_code_parts[of "CInt n" "str_nat (nat n)" "[]" n] by simp
qed

lemma str_nat_three:
  assumes "100 \<le> n"
  shows "\<exists>x y z zs. str_nat n = x # y # z # zs"
proof -
  have a: "str_nat n = str_nat (n div 10) @ [digit_char (n mod 10)]"
    using assms by (subst str_nat.simps) simp
  have "\<not> n div 10 < 10" using assms by linarith
  then have b: "str_nat (n div 10) = str_nat (n div 10 div 10) @ [digit_char (n div 10 mod 10)]"
    by (subst str_nat.simps) simp
  have "Suc 0 \<le> length (str_nat (n div 10 div 10))"
    using str_nat_nonempty[of "n div 10 div 10"] by (cases "str_nat (n div 10 div 10)") auto
  moreover have "length (str_nat n) = length (str_nat (n div 10 div 10)) + 2"
    using a b by simp
  ultimately have "3 \<le> length (str_nat n)" by linarith
  then show ?thesis by (auto simp: Suc_le_length_iff numeral_3_eq_3)
qed

lemma format_02d_large:
  assumes "100 \<le> n"
  shows "\<exists>x y z zs. format_02d n = x # y # z # zs \<and> isdigit z"
proof -
  have "100 \<le> nat n" using assms by simp
  from str_nat_three[OF this] obtain x y z zs where s: "str_nat (nat n) = x # y # z # zs"
    by blast
  have "list_all isdigit (x # y # z # zs)" using str_nat_digits[of "nat n"] s by simp
  then have "isdigit z" by simp
  moreover have "format_02d n = x # y # z # zs"
    using assms s by (simp add: format_02d_def str_int_def)
  ultimately show ?thesis by blast
qed

lemma format_02d_negative:
  assumes "n < 0"
  shows "\<exists>y zs. format_02d n = CHR ''-'' # y # zs"
proof -
  obtain y ys where "str_nat (nat (- n)) = y # ys"
    using str_nat_nonempty[of "nat (- n)"] by (cases "str_nat (nat (- n))") auto
  then show ?thesis using assms by (simp add: format_02d_def str_int_def)
qed

lemma cip_pattern_format:
  "cip_pattern (format_02d n @ (case rest of [] \<Rightarrow> [] | b # bs \<Rightarrow> CHR ''.'' # b))
   = (0 \<le> n \<and> n < 100 \<and> (case rest of [] \<Rightarrow> True | b # bs \<Rightarrow> b \<noteq> [] \<and> list_all isdigit b))"
proof -
  consider "n < 0" | "100 \<le> n" | "0 \<le> n \<and> n < 100" by linarith
  then show ?thesis
  proof cases
    case 1
    from format_02d_negative[OF 1] obtain y zs where "format_02d n = CHR ''-'' # y # zs" by blast
    with 1 show ?thesis using isdigit_not_special(3) by auto
  next
    case 2
    from format_02d_large[OF 2] obtain x y z zs
      where f: "format_02d n = x # y # z # zs" and z: "isdigit z" by blast
    with 2 show ?thesis using isdigit_not_special(2) by auto
  next
    case 3
    then have "nat n < 100" by linarith
    from format_02d_small[OF this] 3
    have f: "format_02d n = [digit_char (nat n div 10), digit_char (nat n mod 10)]" by simp
    have d: "isdigit (digit_char (nat n div 10))" "isdigit (digit_char (nat n mod 10))"
      using \<open>nat n < 100\<close> by (simp_all add: isdigit_digit_char)
    show ?thesis using 3 f d by (cases rest) simp_all
  qed
qed

text \<open>The loop replaces the elements from index \<open>i\<close> on, one by one.\<close>

lemma normalize_from_map:
  "i \<le> length xs \<Longrightarrow> map normalize_code (drop i xs) = map Inr ss \<Longrightarrow>
   normalize_from i xs = (None, take i xs @ map CStr ss)"
proof (induction i xs arbitrary: ss rule: normalize_from.induct)
  case (1 i xs)
  show ?case
  proof (cases "i < length xs")
    case False
    with 1(2,3) show ?thesis by (subst normalize_from.simps) simp
  next
    case True
    then have d: "drop i xs = xs ! i # drop (Suc i) xs" by (simp add: Cons_nth_drop_Suc)
    with 1(3) obtain s ss' where ss: "ss = s # ss'" and s: "normalize_code (xs ! i) = Inr s"
      and r: "map normalize_code (drop (Suc i) xs) = map Inr ss'"
      by (cases ss) auto
    have "normalize_from (Suc i) (xs[i := CStr s])
          = (None, take (Suc i) (xs[i := CStr s]) @ map CStr ss')"
      using 1(1)[OF True s, of ss'] True r by simp
    moreover have "take (Suc i) (xs[i := CStr s]) = take i xs @ [CStr s]"
      using True by (simp add: take_Suc_conv_app_nth)
    ultimately show ?thesis
      using True s ss by (subst normalize_from.simps) simp
  qed
qed

lemma normalize_from_all:
  "map normalize_code xs = map Inr ss \<Longrightarrow> normalize_from 0 xs = (None, map CStr ss)"
  using normalize_from_map[of 0 xs ss] by simp

lemma isin_strings: "isin v (map CStr ss) = (v \<in> VStr ` set ss)"
  by (cases v) auto

lemma restrict_codes_frame:
  assumes "codes \<noteq> []" "map normalize_code codes = map Inr ss"
  shows "restrict_codes (PFrame df) codes =
    (Inr (PFrame (filter_rows (\<lambda>r. cell r ''CIPCODE'' \<in> VStr ` set ss) df)), map CStr ss)"
  using assms by (simp add: restrict_codes_def normalize_from_all isin_strings)

lemma restrict_codes_list:
  assumes "codes \<noteq> []" "map normalize_code codes = map Inr ss"
  shows "snd (restrict_codes awd codes) = map CStr ss"
  using assms by (cases awd) (simp_all add: restrict_codes_def normalize_from_all)

lemma school_query_list:
  assumes "resolve h a evs = (Inr (geog, ids), evs1)" "how_variables (how a) = Some vs"
  shows "fst (snd (school_query h a evs)) =
    snd (restrict_codes
      (fst (select h ''C2019_A'' ([''UNITID'', ''CIPCODE''] @ vs)
         (Eq ''MAJORNUM'' (VNum (of_int (majornum a)))
          # (if length ids > 0 then [In ''UNITID'' ids] else []))
         [] False False evs1)) (cipcode a))"
  using assms by (simp add: school_query_def split: prod.splits sum.splits)

lemma school_query_frame:
  assumes "resolve h a evs = (Inr (geog, ids), evs1)" "how_variables (how a) = Some vs"
    and "select h ''C2019_A'' ([''UNITID'', ''CIPCODE''] @ vs)
         (Eq ''MAJORNUM'' (VNum (of_int (majornum a)))
          # (if length ids > 0 then [In ''UNITID'' ids] else []))
         [] False False evs1 = (PFrame awd, evs2)"
    and "cipcode a \<noteq> []" "map normalize_code (cipcode a) = map Inr ss"
  shows "school_query h a evs =
    (attach_geography (keep_geography a) geog
       (PFrame (filter_rows (\<lambda>r. cell r ''CIPCODE'' \<in> VStr ` set ss) awd)), map CStr ss, evs2)"
  using assms by (simp add: school_query_def restrict_codes_frame)

lemma map_CStr_unchanged:
  "map normalize_code xs = map Inr ss \<Longrightarrow>
   (map CStr ss = xs) = (\<forall>c\<in>set xs. \<exists>s. c = CStr s \<and> normalize_code c = Inr s)"
proof (induction xs arbitrary: ss)
  case Nil
  then show ?case by simp
next
  case (Cons x xs)
  then obtain s ss' where "ss = s # ss'" "normalize_code x = Inr s"
    "map normalize_code xs = map Inr ss'"
    by (cases ss) auto
  with Cons.IH[of ss'] show ?case by auto
qed

text \<open>Decoding and retitling a second time.\<close>

lemma replace_cell_twice:
  assumes "\<forall>c d v l. md c = Some d \<longrightarrow> d v = Some l \<longrightarrow> d l = None"
  shows "replace_cell md c (replace_cell md c v) = replace_cell md c v"
proof (cases "md c")
  case None
  then show ?thesis by (simp add: replace_cell_def)
next
  case (Some d)
  show ?thesis
  proof (cases "d v")
    case None
    with Some show ?thesis by (simp add: replace_cell_def)
  next
    case (Some l)
    with \<open>md c = Some d\<close> assms have "d l = None" by blast
    with Some \<open>md c = Some d\<close> show ?thesis by (simp add: replace_cell_def)
  qed
qed

lemma rename_label_twice:
  assumes "\<forall>c t. m c = Some t \<longrightarrow> m t = None"
  shows "rename_label m (rename_label m c) = rename_label m c"
proof (cases "m c")
  case None
  then show ?thesis by (simp add: rename_label_def)
next
  case (Some t)
  with assms have "m t = None" by blast
  with Some show ?thesis by (simp add: rename_label_def)
qed

lemma replace_cell_title:
  assumes "\<forall>c d v l. md c = Some d \<longrightarrow> d v = Some l \<longrightarrow> d l = None"
    and "\<forall>c t. m c = Some t \<longrightarrow> md t = None"
  shows "replace_cell md (rename_label m c) (replace_cell md c v) = replace_cell md c v"
proof (cases "m c")
  case None
  then show ?thesis using replace_cell_twice[OF assms(1), of c v] by (simp add: rename_label_def)
next
  case (Some t)
  with assms(2) have "md t = None" by blast
  with Some show ?thesis by (simp add: rename_label_def replace_cell_def)
qed

lemma df_replace_twice:
  assumes "\<forall>c d v l. md c = Some d \<longrightarrow> d v = Some l \<longrightarrow> d l = None"
  shows "df_replace md (df_replace md df) = df_replace md df"
  using replace_cell_twice[OF assms] by (simp add: df_replace_def comp_def case_prod_unfold)

lemma df_rename_twice:
  assumes "\<forall>c t. m c = Some t \<longrightarrow> m t = None"
  shows "df_rename m (df_rename m df) = df_rename m df"
  using rename_label_twice[OF assms] by (simp add: df_rename_def comp_def case_prod_unfold)

lemma df_replace_rename_twice:
  assumes "\<forall>c d v l. md c = Some d \<longrightarrow> d v = Some l \<longrightarrow> d l = None"
    and "\<forall>c t. m c = Some t \<longrightarrow> m t = None"
    and "\<forall>c t. m c = Some t \<longrightarrow> md t = None"
  shows "df_rename m (df_replace md (df_rename m (df_replace md df))) = df_rename m (df_replace md df)"
  using replace_cell_title[OF assms(1,3)] rename_label_twice[OF assms(2)]
  by (simp add: df_rename_def df_replace_def comp_def case_prod_unfold)





lemma resolve_level: "resolve h (a\<lparr>cip_level := lv\<rparr>) evs = resolve h a evs"
  by (simp add: resolve_def cong: prod.case_cong sum.case_cong pyobj.case_cong option.case_cong if_cong)

lemma school_query_level: "school_query h (a\<lparr>cip_level := lv\<rparr>) evs = school_query h a evs"
  by (simp add: school_query_def resolve_level
      cong: prod.case_cong sum.case_cong pyobj.case_cong option.case_cong if_cong)

lemma award_table_level: "award_table h (a\<lparr>cip_level := lv\<rparr>) q = award_table h a q"
  by (simp add: award_table_def cong: sum.case_cong)

lemma program_table_level: "program_table h (a\<lparr>cip_level := lv\<rparr>) q = program_table h a q"
  by (simp add: program_table_def cong: sum.case_cong)

lemma awards_frame:
  assumes "fst (awards h a evs) = Inr (PFrame res)"
  shows "\<exists>q t sel. fst (school_query h a evs) = Inr (PFrame q) \<and> award_table h a q = Inr t
     \<and> level_filter (cip_level a) t = Inr (Some sel)
     \<and> clean h sel ''C2019_A'' False (rename a) = Inr res"
proof -
  obtain r codes evs1 where sq: "school_query h a evs = (r, codes, evs1)"
    by (cases "school_query h a evs") auto
  with assms obtain q where q: "r = Inr (PFrame q)"
    by (cases r; cases "projr r") (auto simp: awards_def)
  with sq assms obtain t where t: "award_table h a q = Inr t"
    by (cases "award_table h a q") (auto simp: awards_def)
  with sq q assms obtain sel where s: "level_filter (cip_level a) t = Inr (Some sel)"
    by (cases "level_filter (cip_level a) t"; cases "projr (level_filter (cip_level a) t)")
       (auto simp: awards_def)
  with sq q t assms have "clean h sel ''C2019_A'' False (rename a) = Inr res"
    by (cases "clean h sel ''C2019_A'' False (rename a)") (auto simp: awards_def)
  with sq q t s show ?thesis by auto
qed

lemma programs_frame:
  assumes "fst (programs h a evs) = Inr (PFrame res)"
  shows "\<exists>q t. fst (school_query h (a\<lparr>majornum := 1, how := ''total''\<rparr>) evs) = Inr (PFrame q)
     \<and> program_table h a q = Inr t \<and> level_filter (cip_level a) t = Inr (Some res)"
proof -
  let ?a = "a\<lparr>majornum := 1, how := ''total''\<rparr>"
  obtain r codes evs1 where sq: "school_query h ?a evs = (r, codes, evs1)"
    by (cases "school_query h ?a evs") auto
  with assms obtain q where q: "r = Inr (PFrame q)"
    by (cases r; cases "projr r") (auto simp: programs_def)
  with sq assms obtain t where t: "program_table h a q = Inr t"
    by (cases "program_table h a q") (auto simp: programs_def)
  with sq q assms have "level_filter (cip_level a) t = Inr (Some res)"
    by (cases "level_filter (cip_level a) t"; cases "projr (level_filter (cip_level a) t)")
       (auto simp: programs_def)
  with sq q t show ?thesis by auto
qed























lemma is_str_iff: "is_str v = (\<exists>c. v = VStr c)"
  by (cases v) auto

lemma by_length_rows:
  assumes "by_length n t = Inr (Some s)"
  shows "rows s = filter (\<lambda>r. code_len (cell r ''CIPCODE'') = n) (rows t)"
    and "\<forall>r\<in>set (rows t). \<exists>c. cell r ''CIPCODE'' = VStr c"
  using assms by (auto simp: by_length_def filter_rows_def list_all_iff is_str_iff split: if_splits)

lemma by_length_codes:
  assumes "by_length n t = Inr (Some s)" "r \<in> set (rows s)"
  shows "\<exists>c. cell r ''CIPCODE'' = VStr c \<and> length c = n"
proof -
  from by_length_rows[OF assms(1)] assms(2)
  have m: "r \<in> set (rows t)" "code_len (cell r ''CIPCODE'') = n" by auto
  with by_length_rows(2)[OF assms(1)] obtain c where "cell r ''CIPCODE'' = VStr c" by blast
  with m show ?thesis by simp
qed

lemma level_filter_numeric:
  "level_filter (LInt 6) t = by_length 7 t"
  "level_filter (LInt 4) t = by_length 5 t"
  "level_filter (LInt 2) t = by_length 2 t"
  by (simp_all add: level_filter_def)

lemma level_filter_total:
  "level_filter (LStr ''total'') t = Inr (Some st) \<Longrightarrow>
   rows st = filter (\<lambda>r. cell r ''CIPCODE'' = VStr ''99'') (rows t)"
  by (auto simp: level_filter_def filter_rows_def)

lemma level_filter_all: "level_filter (LStr ''all'') t = Inr (Some t)"
  by (simp add: level_filter_def)

lemma awards_at_level:
  assumes "fst (awards h (a\<lparr>cip_level := lv\<rparr>) evs) = Inr (PFrame res)"
  shows "\<exists>q u sel. fst (school_query h a evs) = Inr (PFrame q) \<and> award_table h a q = Inr u
     \<and> level_filter lv u = Inr (Some sel)
     \<and> clean h sel ''C2019_A'' False (rename a) = Inr res"
  using awards_frame[OF assms] by (simp add: school_query_level award_table_level)

lemma programs_at_level:
  assumes "fst (programs h (a\<lparr>cip_level := lv\<rparr>) evs) = Inr (PFrame res)"
  shows "\<exists>q u. fst (school_query h (a\<lparr>majornum := 1, how := ''total''\<rparr>) evs) = Inr (PFrame q)
     \<and> program_table h a q = Inr u \<and> level_filter lv u = Inr (Some res)"
proof -
  have "school_query h (a\<lparr>cip_level := lv, majornum := 1, how := ''total''\<rparr>) evs
        = school_query h (a\<lparr>majornum := 1, how := ''total''\<rparr>) evs"
    proof -
    have "a\<lparr>cip_level := lv, majornum := 1, how := ''total''\<rparr>
          = a\<lparr>majornum := 1, how := ''total'', cip_level := lv\<rparr>"
      by (cases a) simp
    then show ?thesis by (simp only: school_query_level)
  qed
  with programs_frame[OF assms] show ?thesis by (simp add: program_table_level)
qed















text \<open>No run of \<open>get_new_database\<close> changes the bookkeeping.\<close>

lemma get_new_database_keeps_state: "fst (snd (get_new_database web st evs)) = st"
  by (simp add: get_new_database_def Let_def split: sum.splits)

text \<open>\<open>awards\<close> and \<open>programs\<close> touch the caller's list through \<open>school_query\<close> only.\<close>

lemma awards_list: "fst (snd (awards h a evs)) = fst (snd (school_query h a evs))"
proof -
  obtain r codes evs1 where sq: "school_query h a evs = (r, codes, evs1)"
    by (cases "school_query h a evs") auto
  then show ?thesis
    by (simp add: awards_def split: sum.splits pyobj.splits option.splits)
qed

lemma programs_list:
  "fst (snd (programs h a evs))
   = fst (snd (school_query h (a\<lparr>majornum := 1, how := ''total''\<rparr>) evs))"
proof -
  obtain r codes evs1 where
    sq: "school_query h (a\<lparr>majornum := 1, how := ''total''\<rparr>) evs = (r, codes, evs1)"
    by (cases "school_query h (a\<lparr>majornum := 1, how := ''total''\<rparr>) evs") auto
  then show ?thesis
    by (simp add: programs_def split: sum.splits pyobj.splits option.splits)
qed

section \<open>Resolving institutions without a filter\<close>

text \<open>
  C10. With the three geography filters absent, \<open>get_unitid\<close> returns the empty tuple at
  once: the result is empty and the record of issued queries and printed messages is
  exactly what it was before the call, whatever the handler and the decode flag.
\<close>

theorem get_unitid_no_filter:
  "get_unitid h None None None decode evs = (Inr PTuple0, evs)"
  by (simp add: get_unitid_def)

section \<open>Normalising classification codes\<close>

text \<open>
  C3, as amended. Take an element of \<open>cipcode\<close> (an integer, a string or a float), cut the
  text \<open>str\<close> gives for it at its dots, and let \<open>int\<close> read the first piece as the number
  \<open>n\<close> (\<open>int\<close> drops blanks around the piece, takes one sign and single underscores between
  digits). Then the normalised code is \<open>n\<close> formatted with width 2 as a minimum, followed
  by a dot and the second piece when there is one. It matches \<open>\d{2}(\.\d+)?\<close> exactly when
  \<open>n\<close> is between 0 and 99 and the second piece, when there is one, is a non-empty run of
  digits; for such an \<open>n\<close> the formatted integer part is exactly two digits. In particular
  an integer from 0 on is normalised to its formatted text, which matches exactly when
  the integer is below 100; \<open>1.1\<close> gives \<open>01.1\<close> and \<open>45\<close> gives \<open>45\<close>. There is always a
  first piece. When \<open>school_query\<close> has queried the award table and every element of the
  non-empty list normalises, the rows it goes on with are those whose code is one of
  the normalised strings.
\<close>

theorem cipcode_normalisation:
  assumes "py_split (py_str c) ''.'' = p # ps" "py_int p = Inr n"
  shows "normalize_code c
         = Inr (format_02d n @ (case ps of [] \<Rightarrow> [] | b # bs \<Rightarrow> CHR ''.'' # b))
    \<and> cip_pattern (format_02d n @ (case ps of [] \<Rightarrow> [] | b # bs \<Rightarrow> CHR ''.'' # b))
       = (0 \<le> n \<and> n < 100
          \<and> (case ps of [] \<Rightarrow> True | b # bs \<Rightarrow> b \<noteq> [] \<and> list_all isdigit b))
    \<and> (0 \<le> n \<and> n < 100 \<longrightarrow>
         length (format_02d n) = 2 \<and> list_all isdigit (format_02d n))
    \<and> (0 \<le> m \<and> length (str_int m) \<le> 4300 \<longrightarrow>
         normalize_code (CInt m) = Inr (format_02d m)
         \<and> cip_pattern (format_02d m) = (m < 100))
    \<and> py_split (py_str k) ''.'' \<noteq> []
    \<and> normalize_code (CFloat ''1.1'') = Inr ''01.1''
    \<and> normalize_code (CInt 45) = Inr ''45''
    \<and> (resolve h a evs = (Inr (geog, ids), evsa) \<and> how_variables (how a) = Some vs
        \<and> select h ''C2019_A'' ([''UNITID'', ''CIPCODE''] @ vs)
             (Eq ''MAJORNUM'' (VNum (of_int (majornum a)))
              # (if length ids > 0 then [In ''UNITID'' ids] else []))
             [] False False evsa = (PFrame awd, evsb)
        \<and> cipcode a \<noteq> [] \<and> map normalize_code (cipcode a) = map Inr ss \<longrightarrow>
         fst (school_query h a evs)
         = attach_geography (keep_geography a) geog
             (PFrame (filter_rows (\<lambda>r. cell r ''CIPCODE'' \<in> VStr ` set ss) awd)))"
proof -
  have a: "normalize_code c
      = Inr (format_02d n @ (case ps of [] \<Rightarrow> [] | b # bs \<Rightarrow> CHR ''.'' # b))"
    using assms by (rule normalize_code_parts)
  have p: "cip_pattern (format_02d n @ (case ps of [] \<Rightarrow> [] | b # bs \<Rightarrow> CHR ''.'' # b))
      = (0 \<le> n \<and> n < 100
         \<and> (case ps of [] \<Rightarrow> True | b # bs \<Rightarrow> b \<noteq> [] \<and> list_all isdigit b))"
    by (rule cip_pattern_format)
  have l: "0 \<le> n \<and> n < 100 \<longrightarrow>
      length (format_02d n) = 2 \<and> list_all isdigit (format_02d n)"
  proof
    assume n: "0 \<le> n \<and> n < 100"
    then have "nat n < 100" by linarith
    from format_02d_small[OF this] n
    have "format_02d n = [digit_char (nat n div 10), digit_char (nat n mod 10)]" by simp
    then show "length (format_02d n) = 2 \<and> list_all isdigit (format_02d n)"
      using \<open>nat n < 100\<close> by (simp add: isdigit_digit_char)
  qed
  have i: "0 \<le> m \<and> length (str_int m) \<le> 4300 \<longrightarrow>
      normalize_code (CInt m) = Inr (format_02d m) \<and> cip_pattern (format_02d m) = (m < 100)"
    using normalize_code_int[of m] cip_pattern_format[of m "[]"] by simp
  have k: "py_split (py_str k) ''.'' \<noteq> []"
    by (simp add: py_split_def split_go_nonempty)
  have e1: "normalize_code (CFloat ''1.1'') = Inr ''01.1''" by code_simp
  have e2: "normalize_code (CInt 45) = Inr ''45''" by code_simp
  have f: "resolve h a evs = (Inr (geog, ids), evsa) \<and> how_variables (how a) = Some vs
        \<and> select h ''C2019_A'' ([''UNITID'', ''CIPCODE''] @ vs)
             (Eq ''MAJORNUM'' (VNum (of_int (majornum a)))
              # (if length ids > 0 then [In ''UNITID'' ids] else []))
             [] False False evsa = (PFrame awd, evsb)
        \<and> cipcode a \<noteq> [] \<and> map normalize_code (cipcode a) = map Inr ss \<longrightarrow>
         fst (school_query h a evs)
         = attach_geography (keep_geography a) geog
             (PFrame (filter_rows (\<lambda>r. cell r ''CIPCODE'' \<in> VStr ` set ss) awd))"
    using school_query_frame[of h a evs geog ids evsa vs awd evsb ss] by simp
  from a p l i k e1 e2 f show ?thesis by blast
qed

text \<open>The statement at the string codes \<open>'+7.0101'\<close>, \<open>' 7 '\<close>, \<open>'1_0'\<close> and \<open>'100.5'\<close>, the
  integer 7, and a call with the list \<open>[45]\<close> on the example database.\<close>

theorem cipcode_normalisation_witness:
  "normalize_code (CStr ''+7.0101'') = Inr ''07.0101'' \<and> cip_pattern ''07.0101''
   \<and> normalize_code (CStr '' 7 '') = Inr ''07'' \<and> cip_pattern ''07''
   \<and> normalize_code (CStr ''1_0'') = Inr ''10'' \<and> cip_pattern ''10''
   \<and> normalize_code (CStr ''100.5'') = Inr ''100.5'' \<and> \<not> cip_pattern ''100.5''
   \<and> normalize_code (CInt 7) = Inr ''07''
   \<and> fst (school_query example_ipeds (defaults\<lparr>cipcode := [CInt 45]\<rparr>) [])
       = Inr (PFrame \<lparr>columns = [''UNITID'', ''CIPCODE'', ''CTOTALT''],
                      rows = [[(''UNITID'', VNum 100654), (''CIPCODE'', VStr ''45''),
                               (''CTOTALT'', VNum 7)]]\<rparr>)"
proof -
  let ?a = "defaults\<lparr>cipcode := [CInt 45]\<rparr>"
  let ?awd = "\<lparr>columns = [''UNITID'', ''CIPCODE'', ''CTOTALT''],
               rows = [[(''UNITID'', VNum 100654), (''CIPCODE'', VStr ''01.0101''),
                        (''CTOTALT'', VNum 5)],
                       [(''UNITID'', VNum 100654), (''CIPCODE'', VStr ''01.01''),
                        (''CTOTALT'', VNum 5)],
                       [(''UNITID'', VNum 100654), (''CIPCODE'', VStr ''45''),
                        (''CTOTALT'', VNum 7)],
                       [(''UNITID'', VNum 100654), (''CIPCODE'', VStr ''99''),
                        (''CTOTALT'', VNum 12)]]\<rparr>"
  let ?evs = "[Query ''C2019_A'' [''UNITID'', ''CIPCODE'', ''CTOTALT'']
                 [Eq ''MAJORNUM'' (VNum 1)]]"
  have s1: "py_split (py_str (CStr ''+7.0101'')) ''.'' = ''+7'' # [''0101'']" by code_simp
  have i1: "py_int ''+7'' = Inr 7" by code_simp
  have s2: "py_split (py_str (CStr '' 7 '')) ''.'' = '' 7 '' # []" by code_simp
  have i2: "py_int '' 7 '' = Inr 7" by code_simp
  have s3: "py_split (py_str (CStr ''1_0'')) ''.'' = ''1_0'' # []" by code_simp
  have i3: "py_int ''1_0'' = Inr 10" by code_simp
  have s4: "py_split (py_str (CStr ''100.5'')) ''.'' = ''100'' # [''5'']" by code_simp
  have i4: "py_int ''100'' = Inr 100" by code_simp
  have f7: "format_02d 7 = ''07''" by code_simp
  have f10: "format_02d 10 = ''10''" by code_simp
  have f100: "format_02d 100 = ''100''" by code_simp
  have l7: "length (str_int 7) \<le> 4300" by code_simp
  have d: "list_all isdigit ''0101''" "list_all isdigit ''5''" by code_simp+
  have r: "resolve example_ipeds ?a [] = (Inr (None, []), [])"
    by (simp add: resolve_def defaults_def)
  have v: "how_variables (how ?a) = Some [''CTOTALT'']"
    by (simp add: how_variables_def defaults_def)
  have q: "select example_ipeds ''C2019_A'' ([''UNITID'', ''CIPCODE''] @ [''CTOTALT''])
             (Eq ''MAJORNUM'' (VNum (of_int (majornum ?a)))
              # (if length ([] :: val list) > 0 then [In ''UNITID'' []] else []))
             [] False False [] = (PFrame ?awd, ?evs)"
    by code_simp
  have n: "cipcode ?a \<noteq> []" by simp
  have m: "map normalize_code (cipcode ?a) = map Inr [''45'']" by code_simp
  have g: "attach_geography (keep_geography ?a) None
             (PFrame (filter_rows (\<lambda>r. cell r ''CIPCODE'' \<in> VStr ` set [''45'']) ?awd))
           = Inr (PFrame \<lparr>columns = [''UNITID'', ''CIPCODE'', ''CTOTALT''],
                      rows = [[(''UNITID'', VNum 100654), (''CIPCODE'', VStr ''45''),
                               (''CTOTALT'', VNum 7)]]\<rparr>)"
    by (simp add: attach_geography_def defaults_def filter_rows_def cell_def)
  from cipcode_normalisation[OF s1 i1, where m = 7
         and h = example_ipeds and a = ?a and evs = "[]" and geog = None and ids = "[]"
         and evsa = "[]" and vs = "[''CTOTALT'']" and awd = ?awd and evsb = ?evs
         and ss = "[''45'']"]
       cipcode_normalisation[OF s2 i2, where m = 7
         and h = example_ipeds and a = ?a and evs = "[]" and geog = None and ids = "[]"
         and evsa = "[]" and vs = "[''CTOTALT'']" and awd = ?awd and evsb = ?evs
         and ss = "[''45'']"]
       cipcode_normalisation[OF s3 i3, where m = 7
         and h = example_ipeds and a = ?a and evs = "[]" and geog = None and ids = "[]"
         and evsa = "[]" and vs = "[''CTOTALT'']" and awd = ?awd and evsb = ?evs
         and ss = "[''45'']"]
       cipcode_normalisation[OF s4 i4, where m = 7
         and h = example_ipeds and a = ?a and evs = "[]" and geog = None and ids = "[]"
         and evsa = "[]" and vs = "[''CTOTALT'']" and awd = ?awd and evsb = ?evs
         and ss = "[''45'']"]
       f7 f10 f100 l7 d r v q n m g
  show ?thesis by simp
qed

text \<open>
  The claim as first stated covers every integer: the integer 100 is formatted with
  width 2 as a minimum, stays three digits long and does not match the pattern.
\<close>

theorem cipcode_three_digits_counterexample:
  "normalize_code (CInt 100) = Inr ''100'' \<and> \<not> cip_pattern ''100''"
  by code_simp

section \<open>The caller's list of codes\<close>

text \<open>
  C8, as amended. When a call of \<open>school_query\<close> with a non-empty \<open>cipcode\<close> list gets
  past the institution lookup and the check of \<open>how\<close>, and every element normalises,
  the list the caller passed holds the normalised strings after the call, element by
  element; it is what it was before exactly when every element already was the string
  it normalises to. \<open>awards\<close> and \<open>programs\<close> pass the caller's list to \<open>school_query\<close> and
  leave it as that call leaves it.
\<close>

theorem cipcode_list_after_call:
  assumes "resolve h a evs = (Inr (geog, ids), evs1)" "how_variables (how a) = Some vs"
    and "cipcode a \<noteq> []" "map normalize_code (cipcode a) = map Inr ss"
  shows "fst (snd (school_query h a evs)) = map CStr ss
    \<and> ((fst (snd (school_query h a evs)) = cipcode a)
        = (\<forall>c\<in>set (cipcode a). \<exists>s. c = CStr s \<and> normalize_code c = Inr s))
    \<and> fst (snd (awards h a evs)) = map CStr ss
    \<and> fst (snd (programs h a evs))
        = fst (snd (school_query h (a\<lparr>majornum := 1, how := ''total''\<rparr>) evs))"
proof -
  have "fst (snd (school_query h a evs)) = map CStr ss"
    using school_query_list[OF assms(1,2)] restrict_codes_list[OF assms(3,4)] by simp
  then show ?thesis
    using map_CStr_unchanged[OF assms(4)] by (simp add: awards_list programs_list)
qed

text \<open>The statement for the list \<open>[1.1, '45']\<close> on the example database: the float is
  overwritten, the string stays.\<close>

theorem cipcode_list_after_call_witness:
  "fst (snd (school_query example_ipeds (defaults\<lparr>cipcode := [CFloat ''1.1'', CStr ''45'']\<rparr>) []))
   = [CStr ''01.1'', CStr ''45'']
   \<and> fst (snd (awards example_ipeds (defaults\<lparr>cipcode := [CFloat ''1.1'', CStr ''45'']\<rparr>) []))
   = [CStr ''01.1'', CStr ''45'']"
proof -
  let ?a = "defaults\<lparr>cipcode := [CFloat ''1.1'', CStr ''45'']\<rparr>"
  have r: "resolve example_ipeds ?a [] = (Inr (None, []), [])"
    by (simp add: resolve_def defaults_def)
  have v: "how_variables (how ?a) = Some [''CTOTALT'']"
    by (simp add: how_variables_def defaults_def)
  have n: "cipcode ?a \<noteq> []" by simp
  have m: "map normalize_code (cipcode ?a) = map Inr [''01.1'', ''45'']" by code_simp
  from cipcode_list_after_call[OF r v n m] show ?thesis by simp
qed

text \<open>The claim as first stated says the list is unchanged: after a call with \<open>[45]\<close>
  the caller's list is \<open>['45']\<close>.\<close>

theorem cipcode_list_mutated_counterexample:
  "fst (snd (school_query example_ipeds (defaults\<lparr>cipcode := [CInt 45]\<rparr>) [])) = [CStr ''45'']
   \<and> [CStr ''45''] \<noteq> cipcode (defaults\<lparr>cipcode := [CInt 45]\<rparr>)"
  by code_simp

section \<open>Counting schools\<close>

text \<open>
  C1 says that \<open>schools\<close> without \<open>keep_geography\<close> returns the number of distinct
  institution ids present in the award relation for the filter. On the example database
  the filter \<open>state_fips=1\<close> resolves one institution, which has four award rows: the
  relation \<open>school_query\<close> hands over holds one distinct id in four rows, and \<open>schools\<close>
  returns 4, the number of rows.
\<close>

theorem schools_counts_award_rows:
  "fst (schools example_ipeds (defaults\<lparr>state_fips := Some (Scalar 1)\<rparr>) []) = Inr (PSize 4)
   \<and> (case fst (school_query example_ipeds
                  (defaults\<lparr>state_fips := Some (Scalar 1), cip_level := LStr ''total''\<rparr>) []) of
         Inr (PFrame q) \<Rightarrow> institution_count q = 1 \<and> length (rows q) = 4
       | other \<Rightarrow> False)"
  by code_simp

section \<open>Errors that leave the operation\<close>

text \<open>
  C2 says that no error condition lets an exception reach the caller. With an unknown
  \<open>how\<close>, on any handler and with no geography filter, \<open>school_query\<close> prints its message
  and returns \<open>None\<close>; \<open>awards\<close> calls \<open>.drop\<close> on that result, and the \<open>AttributeError\<close>
  leaves \<open>awards\<close>. The same happens when no institution is found: on the example
  database, with a state that has none, \<open>awards\<close> raises where \<open>schools\<close>, which wraps the
  use of the result in a \<open>try\<close>, returns \<open>None\<close>.
\<close>

theorem awards_unknown_how_raises:
  "awards h (defaults\<lparr>how := ''bogus''\<rparr>) evs = (Inl AttributeError, [], evs @ [Print BadHow])
   \<and> fst (school_query h (defaults\<lparr>how := ''bogus''\<rparr>) evs) = Inr PNone
   \<and> fst (awards example_ipeds (defaults\<lparr>state_fips := Some (Scalar 72)\<rparr>) [])
       = Inl AttributeError
   \<and> fst (schools example_ipeds (defaults\<lparr>state_fips := Some (Scalar 72)\<rparr>) []) = Inr PNone"
proof -
  have 1: "awards h (defaults\<lparr>how := ''bogus''\<rparr>) evs
           = (Inl AttributeError, [], evs @ [Print BadHow])"
    by (simp add: awards_def school_query_def resolve_def defaults_def how_variables_def)
  have 2: "fst (school_query h (defaults\<lparr>how := ''bogus''\<rparr>) evs) = Inr PNone"
    by (simp add: school_query_def resolve_def defaults_def how_variables_def)
  have 3: "fst (awards example_ipeds (defaults\<lparr>state_fips := Some (Scalar 72)\<rparr>) [])
           = Inl AttributeError"
    by code_simp
  have 4: "fst (schools example_ipeds (defaults\<lparr>state_fips := Some (Scalar 72)\<rparr>) [])
           = Inr PNone"
    by code_simp
  from 1 2 3 4 show ?thesis by (intro conjI)
qed

section \<open>Checking for a new release\<close>

text \<open>
  C6 says that a strictly newer remote version leads to a download and to updated
  bookkeeping. For a handler at version 0 and a release page announcing 28.0 with its
  archive link, the page is parsed, the link is found, and the call of the misspelt
  \<open>donwload_data\<close> raises \<open>AttributeError\<close>: nothing is downloaded and \<open>current\<close>,
  \<open>version\<close> and \<open>current_path\<close> are what they were.
\<close>

theorem update_never_completes:
  "version example_onet < 28
   \<and> parse_version example_page = Inr 28
   \<and> archive_link example_page
       = Inr ''https://www.onetcenter.org/dl_files/database/db_28_0_text.zip''
   \<and> get_new_database (Inr example_page) example_onet []
       = (Inl AttributeError, example_onet,
          [HttpGet ''https://www.onetcenter.org/db_releases.html''])"
  by code_simp

section \<open>Cleaning twice\<close>

text \<open>
  C9, as amended. Applying \<open>clean\<close> a second time with the same options gives what the
  first application gave, provided that, when decoding is on, no label of the decode
  dictionary is itself a code of the same variable; when renaming is on, no title of
  the table's rename dictionary is itself one of its variable names; and when both are
  on, no such title is a variable of the decode dictionary.
\<close>

theorem clean_idempotent:
  assumes "rp \<longrightarrow> (\<forall>c d v l. metadata h c = Some d \<longrightarrow> d v = Some l \<longrightarrow> d l = None)"
    and "rn \<longrightarrow> (\<forall>m c t. varnames h name = Some m \<longrightarrow> m c = Some t \<longrightarrow> m t = None)"
    and "rp \<and> rn \<longrightarrow> (\<forall>m c t. varnames h name = Some m \<longrightarrow> m c = Some t
           \<longrightarrow> metadata h t = None)"
    and "clean h df name rp rn = Inr df1"
  shows "clean h df1 name rp rn = Inr df1"
proof (cases rn)
  case False
  show ?thesis
  proof (cases rp)
    case False
    with \<open>\<not> rn\<close> assms(4) show ?thesis by (simp add: clean_def)
  next
    case True
    with assms(1) have "\<forall>c d v l. metadata h c = Some d \<longrightarrow> d v = Some l \<longrightarrow> d l = None"
      by blast
    then have "df_replace (metadata h) (df_replace (metadata h) df) = df_replace (metadata h) df"
      by (rule df_replace_twice)
    with True \<open>\<not> rn\<close> assms(4) show ?thesis by (auto simp: clean_def)
  qed
next
  case True
  with assms(4) obtain m where m: "varnames h name = Some m"
    by (auto simp: clean_def Let_def split: option.splits)
  have t: "\<forall>c t. m c = Some t \<longrightarrow> m t = None" using assms(2) True m by blast
  show ?thesis
  proof (cases rp)
    case False
    with True m assms(4) df_rename_twice[OF t, of df] show ?thesis
      by (auto simp: clean_def)
  next
    case rp: True
    have a: "\<forall>c d v l. metadata h c = Some d \<longrightarrow> d v = Some l \<longrightarrow> d l = None"
      using assms(1) rp by blast
    have b: "\<forall>c t. m c = Some t \<longrightarrow> metadata h t = None"
      using assms(3) rp True m by blast
    have "df_rename m (df_replace (metadata h) (df_rename m (df_replace (metadata h) df)))
          = df_rename m (df_replace (metadata h) df)"
      using a t b by (rule df_replace_rename_twice)
    with True rp m assms(4) show ?thesis by (auto simp: clean_def)
  qed
qed

text \<open>The statement for a one-column frame, decoded and retitled.\<close>

theorem clean_idempotent_witness:
  "clean example_titles example_frame ''T'' True True
     = Inr \<lparr>columns = [''Award level''], rows = [[(''Award level'', VStr ''Certificate'')]]\<rparr>
   \<and> clean example_titles
        \<lparr>columns = [''Award level''], rows = [[(''Award level'', VStr ''Certificate'')]]\<rparr>
        ''T'' True True
     = Inr \<lparr>columns = [''Award level''], rows = [[(''Award level'', VStr ''Certificate'')]]\<rparr>"
proof -
  let ?r = "\<lparr>columns = [''Award level''], rows = [[(''Award level'', VStr ''Certificate'')]]\<rparr>"
  have c: "clean example_titles example_frame ''T'' True True = Inr ?r"
    by (simp add: clean_def example_titles_def example_frame_def df_rename_def df_replace_def
        rename_label_def replace_cell_def)
  have 1: "True \<longrightarrow> (\<forall>c d v l. metadata example_titles c = Some d \<longrightarrow> d v = Some l \<longrightarrow> d l = None)"
    by (auto simp: example_titles_def split: if_splits)
  have 2: "True \<longrightarrow> (\<forall>m c t. varnames example_titles ''T'' = Some m \<longrightarrow> m c = Some t \<longrightarrow> m t = None)"
    by (auto simp: example_titles_def split: if_splits)
  have 3: "True \<and> True \<longrightarrow> (\<forall>m c t. varnames example_titles ''T'' = Some m \<longrightarrow> m c = Some t
       \<longrightarrow> metadata example_titles t = None)"
    by (auto simp: example_titles_def split: if_splits)
  from clean_idempotent[OF 1 2 3 c] c show ?thesis by simp
qed

text \<open>
  The claim as first stated covers every rename dictionary: with the titles
  \<open>A \<rightarrow> B\<close> and \<open>B \<rightarrow> C\<close>, the first application retitles column \<open>A\<close> to \<open>B\<close> and the second
  retitles it again, to \<open>C\<close>.
\<close>

theorem clean_twice_counterexample:
  "clean example_chained \<lparr>columns = [''A''], rows = [[(''A'', VNum 1)]]\<rparr> ''T'' False True
     = Inr \<lparr>columns = [''B''], rows = [[(''B'', VNum 1)]]\<rparr>
   \<and> clean example_chained \<lparr>columns = [''B''], rows = [[(''B'', VNum 1)]]\<rparr> ''T'' False True
     \<noteq> Inr \<lparr>columns = [''B''], rows = [[(''B'', VNum 1)]]\<rparr>"
  by (simp add: clean_def example_chained_def df_rename_def rename_label_def)

section \<open>Granularity of classification codes\<close>

text \<open>
  C4, as amended. Let \<open>t\<close> be an aggregated table on which the four selective levels
  return a selection. Every row selected by \<open>cip_level=6\<close> has a code of length 7, by
  \<open>4\<close> of length 5, by \<open>2\<close> of length 2, by \<open>'total'\<close> the code \<open>99\<close>; \<open>'all'\<close> returns \<open>t\<close> itself
  and each selection is a subset of it; the selections of levels 6, 4 and 2 are pairwise
  disjoint and the \<open>'total'\<close> selection is disjoint from those of levels 6 and 4, but it
  lies inside the selection of level 2, since \<open>99\<close> has length 2. The table \<open>awards\<close> and
  \<open>programs\<close> aggregate does not depend on \<open>cip_level\<close>: a frame returned at a level is
  the selection of that level from it (retitled by \<open>clean\<close> in \<open>awards\<close>).
\<close>

theorem granularity_selections:
  assumes "level_filter (LInt 6) t = Inr (Some s6)"
    and "level_filter (LInt 4) t = Inr (Some s4)"
    and "level_filter (LInt 2) t = Inr (Some s2)"
    and "level_filter (LStr ''total'') t = Inr (Some st)"
  shows "(\<forall>r\<in>set (rows s6). \<exists>c. cell r ''CIPCODE'' = VStr c \<and> length c = 7)
    \<and> (\<forall>r\<in>set (rows s4). \<exists>c. cell r ''CIPCODE'' = VStr c \<and> length c = 5)
    \<and> (\<forall>r\<in>set (rows s2). \<exists>c. cell r ''CIPCODE'' = VStr c \<and> length c = 2)
    \<and> (\<forall>r\<in>set (rows st). cell r ''CIPCODE'' = VStr ''99'')
    \<and> level_filter (LStr ''all'') t = Inr (Some t)
    \<and> set (rows s6) \<subseteq> set (rows t) \<and> set (rows s4) \<subseteq> set (rows t)
    \<and> set (rows s2) \<subseteq> set (rows t) \<and> set (rows st) \<subseteq> set (rows t)
    \<and> set (rows s6) \<inter> set (rows s4) = {} \<and> set (rows s6) \<inter> set (rows s2) = {}
    \<and> set (rows s4) \<inter> set (rows s2) = {}
    \<and> set (rows st) \<inter> set (rows s6) = {} \<and> set (rows st) \<inter> set (rows s4) = {}
    \<and> set (rows st) \<subseteq> set (rows s2)
    \<and> (fst (awards h (a\<lparr>cip_level := lv\<rparr>) evs) = Inr (PFrame res) \<longrightarrow>
         (\<exists>q u sel. fst (school_query h a evs) = Inr (PFrame q) \<and> award_table h a q = Inr u
            \<and> level_filter lv u = Inr (Some sel)
            \<and> clean h sel ''C2019_A'' False (rename a) = Inr res))
    \<and> (fst (programs h (a\<lparr>cip_level := lv\<rparr>) evs) = Inr (PFrame res') \<longrightarrow>
         (\<exists>q u. fst (school_query h (a\<lparr>majornum := 1, how := ''total''\<rparr>) evs) = Inr (PFrame q)
            \<and> program_table h a q = Inr u \<and> level_filter lv u = Inr (Some res')))"
proof -
  have b6: "by_length 7 t = Inr (Some s6)" and b4: "by_length 5 t = Inr (Some s4)"
    and b2: "by_length 2 t = Inr (Some s2)"
    using assms(1,2,3) by (simp_all add: level_filter_numeric)
  have r6: "rows s6 = filter (\<lambda>r. code_len (cell r ''CIPCODE'') = 7) (rows t)"
    and r4: "rows s4 = filter (\<lambda>r. code_len (cell r ''CIPCODE'') = 5) (rows t)"
    and r2: "rows s2 = filter (\<lambda>r. code_len (cell r ''CIPCODE'') = 2) (rows t)"
    using by_length_rows(1)[OF b6] by_length_rows(1)[OF b4] by_length_rows(1)[OF b2] by simp_all
  have rt: "rows st = filter (\<lambda>r. cell r ''CIPCODE'' = VStr ''99'') (rows t)"
    using assms(4) by (rule level_filter_total)
  have c6: "\<forall>r\<in>set (rows s6). \<exists>c. cell r ''CIPCODE'' = VStr c \<and> length c = 7"
    using by_length_codes[OF b6] by blast
  have c4: "\<forall>r\<in>set (rows s4). \<exists>c. cell r ''CIPCODE'' = VStr c \<and> length c = 5"
    using by_length_codes[OF b4] by blast
  have c2: "\<forall>r\<in>set (rows s2). \<exists>c. cell r ''CIPCODE'' = VStr c \<and> length c = 2"
    using by_length_codes[OF b2] by blast
  have ct: "\<forall>r\<in>set (rows st). cell r ''CIPCODE'' = VStr ''99''"
    using rt by simp
  have sub: "set (rows s6) \<subseteq> set (rows t)" "set (rows s4) \<subseteq> set (rows t)"
    "set (rows s2) \<subseteq> set (rows t)" "set (rows st) \<subseteq> set (rows t)"
    using r6 r4 r2 rt by auto
  have d1: "set (rows s6) \<inter> set (rows s4) = {}" using r6 r4 by auto
  have d2: "set (rows s6) \<inter> set (rows s2) = {}" using r6 r2 by auto
  have d3: "set (rows s4) \<inter> set (rows s2) = {}" using r4 r2 by auto
  have d4: "set (rows st) \<inter> set (rows s6) = {}" using rt r6 by auto
  have d5: "set (rows st) \<inter> set (rows s4) = {}" using rt r4 by auto
  have i: "set (rows st) \<subseteq> set (rows s2)" using rt r2 by auto
  have aw: "fst (awards h (a\<lparr>cip_level := lv\<rparr>) evs) = Inr (PFrame res) \<longrightarrow>
         (\<exists>q u sel. fst (school_query h a evs) = Inr (PFrame q) \<and> award_table h a q = Inr u
            \<and> level_filter lv u = Inr (Some sel)
            \<and> clean h sel ''C2019_A'' False (rename a) = Inr res)"
    using awards_at_level by blast
  have pr: "fst (programs h (a\<lparr>cip_level := lv\<rparr>) evs) = Inr (PFrame res') \<longrightarrow>
         (\<exists>q u. fst (school_query h (a\<lparr>majornum := 1, how := ''total''\<rparr>) evs) = Inr (PFrame q)
            \<and> program_table h a q = Inr u \<and> level_filter lv u = Inr (Some res'))"
    using programs_at_level by blast
  from c6 c4 c2 ct level_filter_all[of t] sub d1 d2 d3 d4 d5 i aw pr
  show ?thesis by (intro conjI)
qed

text \<open>The statement for the table aggregated from the example database and for the
  calls at level 2.\<close>

theorem granularity_selections_witness:
  "set (rows \<lparr>columns = [''CIPCODE'', ''CTOTALT''],
               rows = [[(''CIPCODE'', VStr ''01.0101''), (''CTOTALT'', VNum 5)]]\<rparr>)
     \<inter> set (rows \<lparr>columns = [''CIPCODE'', ''CTOTALT''],
                  rows = [[(''CIPCODE'', VStr ''01.01''), (''CTOTALT'', VNum 5)]]\<rparr>) = {}
   \<and> set (rows \<lparr>columns = [''CIPCODE'', ''CTOTALT''],
                 rows = [[(''CIPCODE'', VStr ''99''), (''CTOTALT'', VNum 12)]]\<rparr>)
     \<subseteq> set (rows \<lparr>columns = [''CIPCODE'', ''CTOTALT''],
                  rows = [[(''CIPCODE'', VStr ''45''), (''CTOTALT'', VNum 7)],
                          [(''CIPCODE'', VStr ''99''), (''CTOTALT'', VNum 12)]]\<rparr>)
   \<and> (\<exists>q u sel. fst (school_query example_ipeds defaults []) = Inr (PFrame q)
          \<and> award_table example_ipeds defaults q = Inr u
          \<and> level_filter (LInt 2) u = Inr (Some sel)
          \<and> clean example_ipeds sel ''C2019_A'' False (rename defaults)
              = Inr \<lparr>columns = [''CIPCODE'', ''Grand total''],
                     rows = [[(''CIPCODE'', VStr ''45''), (''Grand total'', VNum 7)],
                             [(''CIPCODE'', VStr ''99''), (''Grand total'', VNum 12)]]\<rparr>)
   \<and> (\<exists>q u. fst (school_query example_ipeds (defaults\<lparr>majornum := 1, how := ''total''\<rparr>) [])
              = Inr (PFrame q)
          \<and> program_table example_ipeds defaults q = Inr u
          \<and> level_filter (LInt 2) u
              = Inr (Some \<lparr>columns = [''CIPCODE'', ''PROG_COUNT''],
                     rows = [[(''CIPCODE'', VStr ''45''), (''PROG_COUNT'', VNum 1)],
                             [(''CIPCODE'', VStr ''99''), (''PROG_COUNT'', VNum 1)]]\<rparr>))"
proof -
  let ?s6 = "\<lparr>columns = [''CIPCODE'', ''CTOTALT''],
               rows = [[(''CIPCODE'', VStr ''01.0101''), (''CTOTALT'', VNum 5)]]\<rparr>"
  let ?s4 = "\<lparr>columns = [''CIPCODE'', ''CTOTALT''],
               rows = [[(''CIPCODE'', VStr ''01.01''), (''CTOTALT'', VNum 5)]]\<rparr>"
  let ?s2 = "\<lparr>columns = [''CIPCODE'', ''CTOTALT''],
               rows = [[(''CIPCODE'', VStr ''45''), (''CTOTALT'', VNum 7)],
                       [(''CIPCODE'', VStr ''99''), (''CTOTALT'', VNum 12)]]\<rparr>"
  let ?st = "\<lparr>columns = [''CIPCODE'', ''CTOTALT''],
               rows = [[(''CIPCODE'', VStr ''99''), (''CTOTALT'', VNum 12)]]\<rparr>"
  let ?ra = "\<lparr>columns = [''CIPCODE'', ''Grand total''],
               rows = [[(''CIPCODE'', VStr ''45''), (''Grand total'', VNum 7)],
                       [(''CIPCODE'', VStr ''99''), (''Grand total'', VNum 12)]]\<rparr>"
  let ?rp = "\<lparr>columns = [''CIPCODE'', ''PROG_COUNT''],
               rows = [[(''CIPCODE'', VStr ''45''), (''PROG_COUNT'', VNum 1)],
                       [(''CIPCODE'', VStr ''99''), (''PROG_COUNT'', VNum 1)]]\<rparr>"
  have h6: "level_filter (LInt 6) example_awards_table = Inr (Some ?s6)" by code_simp
  have h4: "level_filter (LInt 4) example_awards_table = Inr (Some ?s4)" by code_simp
  have h2: "level_filter (LInt 2) example_awards_table = Inr (Some ?s2)" by code_simp
  have ht: "level_filter (LStr ''total'') example_awards_table = Inr (Some ?st)" by code_simp
  have ha: "fst (awards example_ipeds (defaults\<lparr>cip_level := LInt 2\<rparr>) []) = Inr (PFrame ?ra)"
    by code_simp
  have hp: "fst (programs example_ipeds (defaults\<lparr>cip_level := LInt 2\<rparr>) []) = Inr (PFrame ?rp)"
    by code_simp
  from granularity_selections[OF h6 h4 h2 ht, where h = example_ipeds and a = defaults
      and lv = "LInt 2" and evs = "[]" and res = ?ra and res' = ?rp] ha hp
  show ?thesis by blast
qed

text \<open>The claim as first stated has the four selections pairwise disjoint: on the
  example database the row of code \<open>99\<close> is returned at level 2 and at level
  \<open>'total'\<close>.\<close>

theorem total_in_two_digit_counterexample:
  "[(''CIPCODE'', VStr ''99''), (''Grand total'', VNum 12)]
     \<in> set (result_rows (fst (awards example_ipeds (defaults\<lparr>cip_level := LInt 2\<rparr>) [])))
   \<and> [(''CIPCODE'', VStr ''99''), (''Grand total'', VNum 12)]
     \<in> set (result_rows (fst (awards example_ipeds (defaults\<lparr>cip_level := LStr ''total''\<rparr>) [])))"
  by code_simp

section \<open>The final clean of awards and programs\<close>



section \<open>Translating through a list-encoded column\<close>




end
